theory Spec2Isabelle
  imports Complex_Main "HOL-Library.Multiset" "HOL-Library.List_Lexorder" "HOL-Library.Char_ord"
begin

section \<open>Python values and the library calls of ec2\_cost\_analysis\_v2.py\<close>

text \<open>
  The script reads two JSON files, normalises them into pandas data frames, aggregates
  them and writes two charts and an HTML page. Every exception the script can raise is a
  value of \<open>error\<close>; a function that can raise returns \<open>error + 'a\<close> with
  \<open>Inl\<close> the exception. \<open>KeyError\<close> carries the key that was looked up.
  \<open>NotModelled\<close> is no exception of Python: it marks the one place where this
  development does not follow pandas (instance-type labels that are not strings, in the
  bar chart).
\<close>

datatype error =
    KeyError string
  | TypeError
  | AttributeError
  | ValueError
  | IndexError
  | OSError
  | SystemExit string
  | NotModelled

text \<open>
  What \<open>json.load\<close> returns: \<open>None\<close>, a bool, an int, a float, a str, a list or a
  dict. A dict is the list of its items in insertion order; its keys are distinct, as
  those of a Python dict are. A float is read as the real number it stands for;
  infinities and NaN are outside this development, and the rounding of float64
  additions is studied in the section on float64.
\<close>

datatype json =
    JNull
  | JBool bool
  | JInt int
  | JFloat real
  | JStr string
  | JArr "json list"
  | JObj "(string \<times> json) list"

definition ebind :: "error + 'a \<Rightarrow> ('a \<Rightarrow> error + 'b) \<Rightarrow> error + 'b" where
  "ebind m f = (case m of Inl e \<Rightarrow> Inl e | Inr x \<Rightarrow> f x)"

text \<open>\<open>x[k]\<close> for a string key \<open>k\<close>: only a dict can be subscripted with a string.\<close>

fun getitem :: "json \<Rightarrow> string \<Rightarrow> error + json" where
  "getitem (JObj kvs) k = (case map_of kvs k of None \<Rightarrow> Inl (KeyError k) | Some v \<Rightarrow> Inr v)"
| "getitem _ k = Inl TypeError"

text \<open>
  \<open>x[0]\<close>: the first element of a list, the first character of a str; a dict loaded
  from JSON has string keys only, so the key \<open>0\<close> is never there.
\<close>

fun getitem0 :: "json \<Rightarrow> error + json" where
  "getitem0 (JArr []) = Inl IndexError"
| "getitem0 (JArr (x # xs)) = Inr x"
| "getitem0 (JStr []) = Inl IndexError"
| "getitem0 (JStr (c # cs)) = Inr (JStr [c])"
| "getitem0 (JObj kvs) = Inl (KeyError ''0'')"
| "getitem0 _ = Inl TypeError"

text \<open>\<open>x.get(k, d)\<close>: a method of dicts only.\<close>

fun get_default :: "json \<Rightarrow> string \<Rightarrow> json \<Rightarrow> error + json" where
  "get_default (JObj kvs) k d = (case map_of kvs k of None \<Rightarrow> Inr d | Some v \<Rightarrow> Inr v)"
| "get_default _ k d = Inl AttributeError"

text \<open>The truth value of \<open>x\<close> in \<open>if x\<close>.\<close>

fun truthy :: "json \<Rightarrow> bool" where
  "truthy JNull = False"
| "truthy (JBool b) = b"
| "truthy (JInt i) = (i \<noteq> 0)"
| "truthy (JFloat r) = (r \<noteq> 0)"
| "truthy (JStr s) = (s \<noteq> [])"
| "truthy (JArr xs) = (xs \<noteq> [])"
| "truthy (JObj kvs) = (kvs \<noteq> [])"

text \<open>
  \<open>for x in v\<close>: a list yields its elements, a dict its keys, a str its characters;
  anything else is not iterable.
\<close>

fun py_iter :: "json \<Rightarrow> error + json list" where
  "py_iter (JArr xs) = Inr xs"
| "py_iter (JObj kvs) = Inr (map (\<lambda>kv. JStr (fst kv)) kvs)"
| "py_iter (JStr s) = Inr (map (\<lambda>c. JStr [c]) s)"
| "py_iter _ = Inl TypeError"

text \<open>
  The library functions the script calls on values, taken as parameters:
  \<^item> \<open>to_datetime\<close>: what \<open>pd.to_datetime\<close> makes of one cell of the \<open>Date\<close> column (a
    timestamp, in nanoseconds since the epoch, or the exception it raises);
  \<^item> \<open>float_of_str\<close>: what \<open>float(s)\<close> makes of a str (\<open>None\<close>: ValueError);
  \<^item> \<open>strftime\<close>: \<open>Timestamp.strftime("%Y-%m-%d")\<close>;
  \<^item> \<open>format4f\<close>: the format specification \<open>:.4f\<close>;
  \<^item> \<open>relpath\<close> and \<open>dirname\<close>: \<open>os.path.relpath\<close> and \<open>os.path.dirname\<close>;
  \<^item> \<open>utcnow\<close>: \<open>datetime.utcnow().strftime("%Y-%m-%d %H:%M:%S")\<close> at the time of
    the run.
\<close>

type_synonym timestamp = int

record pylib =
  to_datetime :: "json \<Rightarrow> error + timestamp"
  float_of_str :: "string \<Rightarrow> real option"
  strftime :: "timestamp \<Rightarrow> string"
  format4f :: "real \<Rightarrow> string"
  relpath :: "string \<Rightarrow> string \<Rightarrow> string"
  dirname :: "string \<Rightarrow> string"
  utcnow :: string

text \<open>\<open>float(x)\<close>.\<close>

fun py_float :: "pylib \<Rightarrow> json \<Rightarrow> error + real" where
  "py_float L (JInt i) = Inr (of_int i)"
| "py_float L (JFloat r) = Inr r"
| "py_float L (JBool b) = Inr (if b then 1 else 0)"
| "py_float L (JStr s) = (case float_of_str L s of None \<Rightarrow> Inl ValueError | Some r \<Rightarrow> Inr r)"
| "py_float L _ = Inl TypeError"

section \<open>Data frames\<close>

text \<open>
  The rows of the two tables. A by-type row extends a daily row with the instance type.
  The type of the \<open>Date\<close> column is a parameter: the JSON value before
  \<open>pd.to_datetime\<close>, a timestamp after it; so is the type of the instance-type label.
\<close>

record 'd cost_point =
  Date :: 'd
  Cost :: real

record ('d, 'l) cost_by_type = "'d cost_point" +
  InstanceType :: 'l

text \<open>
  A data frame: its column names, and its rows, each with its index label.
  \<open>pd.DataFrame(rec)\<close> of a list of dicts with the keys \<open>keys\<close> numbers the rows from 0;
  of the empty list it is the frame with no column and no row.
\<close>

record 'r frame =
  columns :: "string list"
  rows :: "(nat \<times> 'r) list"

definition DataFrame :: "string list \<Rightarrow> 'r list \<Rightarrow> 'r frame" where
  "DataFrame keys rec =
     (if rec = [] then \<lparr>columns = [], rows = []\<rparr>
      else \<lparr>columns = keys, rows = enumerate 0 rec\<rparr>)"

text \<open>\<open>df.empty\<close>: an axis of length 0.\<close>

definition empty_frame :: "'r frame \<Rightarrow> bool" where
  "empty_frame df = (columns df = [] \<or> rows df = [])"

text \<open>
  \<open>df["Date"] = pd.to_datetime(df["Date"])\<close>: reading the column raises KeyError when
  the frame has no such column; \<open>build r d\<close> is the row \<open>r\<close> with the date \<open>d\<close>.
\<close>

fun convert_rows ::
  "pylib \<Rightarrow> ('r \<Rightarrow> json) \<Rightarrow> ('r \<Rightarrow> timestamp \<Rightarrow> 's) \<Rightarrow> (nat \<times> 'r) list \<Rightarrow> error + (nat \<times> 's) list" where
  "convert_rows L get build [] = Inr []"
| "convert_rows L get build ((i, r) # rs) =
     ebind (to_datetime L (get r)) (\<lambda>d.
     ebind (convert_rows L get build rs) (\<lambda>rs'. Inr ((i, build r d) # rs')))"

definition assign_to_datetime ::
  "pylib \<Rightarrow> ('r \<Rightarrow> json) \<Rightarrow> ('r \<Rightarrow> timestamp \<Rightarrow> 's) \<Rightarrow> 'r frame \<Rightarrow> error + 's frame" where
  "assign_to_datetime L get build df =
     (if ''Date'' \<notin> set (columns df) then Inl (KeyError ''Date'')
      else ebind (convert_rows L get build (rows df)) (\<lambda>rs.
             Inr \<lparr>columns = columns df, rows = rs\<rparr>))"

text \<open>
  \<open>df.sort_values(col)\<close> and \<open>df.sort_values(col, ascending=False)\<close>; \<open>key\<close> reads the
  column \<open>col\<close> of a row. Rows keep their index labels. pandas sorts descending by
  reversing, sorting ascending and reversing again. The sort is taken to be stable; the
  order pandas leaves equal keys in is used by no theorem below.
\<close>

definition sort_values :: "string \<Rightarrow> ('r \<Rightarrow> 'k::linorder) \<Rightarrow> 'r frame \<Rightarrow> error + 'r frame" where
  "sort_values col key df =
     (if col \<notin> set (columns df) then Inl (KeyError col)
      else Inr (df\<lparr>rows := sort_key (\<lambda>ir. key (snd ir)) (rows df)\<rparr>))"

definition sort_values_desc :: "string \<Rightarrow> ('r \<Rightarrow> 'k::linorder) \<Rightarrow> 'r frame \<Rightarrow> error + 'r frame" where
  "sort_values_desc col key df =
     (if col \<notin> set (columns df) then Inl (KeyError col)
      else Inr (df\<lparr>rows := rev (sort_key (\<lambda>ir. key (snd ir)) (rev (rows df)))\<rparr>))"

text \<open>
  \<open>df.groupby(col, as_index=False)["Cost"].sum()\<close>: one row per distinct key, in
  ascending order of the keys, holding the key and the sum of the \<open>Cost\<close> of the rows
  with that key; the rows are numbered from 0. \<open>mk k c\<close> is the row of the result.
  The costs are added exactly (the float64 sums are in the section on float64 below).
  pandas leaves out the rows whose key is missing (NaT, None); the keys of this
  development, timestamps and strings, have no missing value.
\<close>

definition group_sums :: "('r \<Rightarrow> 'k::linorder) \<Rightarrow> ('r \<Rightarrow> real) \<Rightarrow> 'r list \<Rightarrow> ('k \<times> real) list" where
  "group_sums key val rs =
     map (\<lambda>k. (k, sum_list (map val (filter (\<lambda>r. key r = k) rs)))) (sort (remdups (map key rs)))"

definition groupby_sum ::
  "string \<Rightarrow> ('r \<Rightarrow> 'k::linorder) \<Rightarrow> ('r \<Rightarrow> real) \<Rightarrow> ('k \<Rightarrow> real \<Rightarrow> 's) \<Rightarrow> 'r frame \<Rightarrow> error + 's frame" where
  "groupby_sum col key val mk df =
     (if col \<notin> set (columns df) then Inl (KeyError col)
      else if ''Cost'' \<notin> set (columns df) then Inl (KeyError ''Cost'')
      else Inr \<lparr>columns = [col, ''Cost''],
                rows = enumerate 0 (map (\<lambda>kc. mk (fst kc) (snd kc)) (group_sums key val (map snd (rows df))))\<rparr>)"

section \<open>Record Normalizer\<close>

text \<open>
  \<open>df_daily_total\<close>: the dict the loop appends for one entry \<open>e\<close>, the loop over the
  entries with the list \<open>rec\<close> it appends to, and the function.
\<close>

definition daily_total_record :: "pylib \<Rightarrow> json \<Rightarrow> error + json cost_point" where
  "daily_total_record L e =
     ebind (getitem e ''TimePeriod'') (\<lambda>tp.
     ebind (getitem tp ''Start'') (\<lambda>start.
     ebind (getitem e ''Total'') (\<lambda>tot.
     ebind (getitem tot ''UnblendedCost'') (\<lambda>uc.
     ebind (getitem uc ''Amount'') (\<lambda>amount.
     ebind (py_float L amount) (\<lambda>cost.
       Inr \<lparr>Date = start, Cost = cost\<rparr>))))))"

fun daily_total_loop :: "pylib \<Rightarrow> json list \<Rightarrow> json cost_point list \<Rightarrow> error + json cost_point list" where
  "daily_total_loop L [] rec = Inr rec"
| "daily_total_loop L (e # es) rec =
     ebind (daily_total_record L e) (\<lambda>r. daily_total_loop L es (rec @ [r]))"

definition df_daily_total :: "pylib \<Rightarrow> json \<Rightarrow> error + timestamp cost_point frame" where
  "df_daily_total L results =
     ebind (py_iter results) (\<lambda>es.
     ebind (daily_total_loop L es []) (\<lambda>rec.
     ebind (assign_to_datetime L Date (\<lambda>r d. \<lparr>Date = d, Cost = Cost r\<rparr>)
              (DataFrame [''Date'', ''Cost''] rec)) (\<lambda>df.
       sort_values ''Date'' Date df)))"

text \<open>
  \<open>df_by_type\<close>: the dict appended for one group \<open>g\<close> of an entry with the period start
  \<open>date\<close>, the inner loop over the groups, the outer loop over the entries, and the
  function. The condition \<open>g.get("Keys")\<close> is evaluated before \<open>g["Keys"][0]\<close>.
\<close>

definition by_type_record :: "pylib \<Rightarrow> json \<Rightarrow> json \<Rightarrow> error + (json, json) cost_by_type" where
  "by_type_record L date g =
     ebind (get_default g ''Keys'' JNull) (\<lambda>ks.
     ebind (if truthy ks then ebind (getitem g ''Keys'') getitem0 else Inr (JStr ''UNKNOWN'')) (\<lambda>itype.
     ebind (getitem g ''Metrics'') (\<lambda>m.
     ebind (getitem m ''UnblendedCost'') (\<lambda>uc.
     ebind (getitem uc ''Amount'') (\<lambda>amount.
     ebind (py_float L amount) (\<lambda>cost.
       Inr \<lparr>Date = date, Cost = cost, InstanceType = itype\<rparr>))))))"

fun group_loop ::
  "pylib \<Rightarrow> json \<Rightarrow> json list \<Rightarrow> (json, json) cost_by_type list \<Rightarrow> error + (json, json) cost_by_type list" where
  "group_loop L date [] rec = Inr rec"
| "group_loop L date (g # gs) rec =
     ebind (by_type_record L date g) (\<lambda>r. group_loop L date gs (rec @ [r]))"

definition by_type_entry ::
  "pylib \<Rightarrow> json \<Rightarrow> (json, json) cost_by_type list \<Rightarrow> error + (json, json) cost_by_type list" where
  "by_type_entry L e rec =
     ebind (getitem e ''TimePeriod'') (\<lambda>tp.
     ebind (getitem tp ''Start'') (\<lambda>date.
     ebind (get_default e ''Groups'' (JArr [])) (\<lambda>groups.
     ebind (py_iter groups) (\<lambda>gs.
       group_loop L date gs rec))))"

fun by_type_loop ::
  "pylib \<Rightarrow> json list \<Rightarrow> (json, json) cost_by_type list \<Rightarrow> error + (json, json) cost_by_type list" where
  "by_type_loop L [] rec = Inr rec"
| "by_type_loop L (e # es) rec = ebind (by_type_entry L e rec) (\<lambda>rec'. by_type_loop L es rec')"

definition df_by_type :: "pylib \<Rightarrow> json \<Rightarrow> error + (timestamp, json) cost_by_type frame" where
  "df_by_type L results =
     ebind (py_iter results) (\<lambda>es.
     ebind (by_type_loop L es []) (\<lambda>rec.
     ebind (assign_to_datetime L Date
              (\<lambda>r d. \<lparr>Date = d, Cost = Cost r, InstanceType = InstanceType r\<rparr>)
              (DataFrame [''Date'', ''InstanceType'', ''Cost''] rec)) (\<lambda>df.
       sort_values ''Date'' Date df)))"

section \<open>Aggregator\<close>

text \<open>
  \<open>derive_daily_from_type\<close>: the group-sum by date, the renaming of \<open>Cost\<close> to itself,
  and the sort.
\<close>

definition derive_daily_from_type ::
  "('d::linorder, 'z) cost_point_scheme frame \<Rightarrow> error + 'd cost_point frame" where
  "derive_daily_from_type df_type =
     ebind (groupby_sum ''Date'' Date Cost (\<lambda>d c. \<lparr>Date = d, Cost = c\<rparr>) df_type) (\<lambda>df.
       sort_values ''Date'' Date df)"

record summary =
  total_cost :: real
  average_cost :: real
  max_cost :: real
  max_cost_date :: "string option"
  min_cost :: real
  min_cost_date :: "string option"

text \<open>
  The reductions of the \<open>Cost\<close> column. \<open>idxmax\<close> and \<open>idxmin\<close> give the index label of
  the first row that holds the extremal value. \<open>df.loc[label, "Date"]\<close> is a timestamp
  when one row has the label; with several it is a Series, which has no \<open>strftime\<close>.
\<close>

fun list_max :: "real list \<Rightarrow> real" where
  "list_max [] = 0"
| "list_max (x # xs) = fold max xs x"

fun list_min :: "real list \<Rightarrow> real" where
  "list_min [] = 0"
| "list_min (x # xs) = fold min xs x"

definition idx_of :: "real \<Rightarrow> (nat \<times> ('d, 'z) cost_point_scheme) list \<Rightarrow> error + nat" where
  "idx_of v rs =
     (case find (\<lambda>ir. Cost (snd ir) = v) rs of None \<Rightarrow> Inl ValueError | Some ir \<Rightarrow> Inr (fst ir))"

definition loc_date_str ::
  "pylib \<Rightarrow> (timestamp, 'z) cost_point_scheme frame \<Rightarrow> nat \<Rightarrow> error + string" where
  "loc_date_str L df label =
     (if ''Date'' \<notin> set (columns df) then Inl (KeyError ''Date'')
      else case filter (\<lambda>ir. fst ir = label) (rows df) of
             [] \<Rightarrow> Inl (KeyError ''label'')
           | [ir] \<Rightarrow> Inr (strftime L (Date (snd ir)))
           | _ \<Rightarrow> Inl AttributeError)"

definition analyze :: "pylib \<Rightarrow> (timestamp, 'z) cost_point_scheme frame \<Rightarrow> error + summary" where
  "analyze L df_daily =
     (if empty_frame df_daily then
        Inr \<lparr>total_cost = 0, average_cost = 0, max_cost = 0, max_cost_date = None,
             min_cost = 0, min_cost_date = None\<rparr>
      else if ''Cost'' \<notin> set (columns df_daily) then Inl (KeyError ''Cost'')
      else
        let cs = map (\<lambda>ir. Cost (snd ir)) (rows df_daily);
            total = sum_list cs;
            avg = sum_list cs / real (length cs);
            mx = list_max cs;
            mn = list_min cs
        in ebind (idx_of mx (rows df_daily)) (\<lambda>imax.
           ebind (loc_date_str L df_daily imax) (\<lambda>mx_date.
           ebind (idx_of mn (rows df_daily)) (\<lambda>imin.
           ebind (loc_date_str L df_daily imin) (\<lambda>mn_date.
             Inr \<lparr>total_cost = total, average_cost = avg, max_cost = mx,
                  max_cost_date = Some mx_date, min_cost = mn, min_cost_date = Some mn_date\<rparr>)))))"

section \<open>Chart Renderer\<close>

text \<open>
  A chart is the data handed to matplotlib: the points of the line chart, the bars of the
  bar chart, in the order they are drawn.
\<close>

definition plot_daily :: "(timestamp, 'z) cost_point_scheme frame \<Rightarrow> error + (timestamp \<times> real) list" where
  "plot_daily df_daily =
     (if ''Date'' \<notin> set (columns df_daily) then Inl (KeyError ''Date'')
      else if ''Cost'' \<notin> set (columns df_daily) then Inl (KeyError ''Cost'')
      else Inr (map (\<lambda>ir. (Date (snd ir), Cost (snd ir))) (rows df_daily)))"

definition plot_by_type :: "('d, 'l::linorder) cost_by_type frame \<Rightarrow> error + ('l \<times> real) list" where
  "plot_by_type df_type =
     ebind (groupby_sum ''InstanceType'' InstanceType Cost (\<lambda>t c. (t, c)) df_type) (\<lambda>g.
     ebind (sort_values_desc ''Cost'' snd g) (\<lambda>totals.
       Inr (map snd (rows totals))))"

section \<open>Report Composer\<close>

text \<open>
  The document \<open>write_html\<close> builds: the template of the source with the values filled
  in. The accented letters of the template are their UTF-8 bytes; \<open>None\<close> is formatted
  as the text \<open>None\<close>.
\<close>

definition a_acute :: string where
  "a_acute = [CHR 0xC3, CHR 0xA1]"

definition i_acute :: string where
  "i_acute = [CHR 0xC3, CHR 0xAD]"

definition nl :: string where
  "nl = [CHR 0x0A]"

definition dq :: string where
  "dq = [CHR 0x22]"

definition str_opt :: "string option \<Rightarrow> string" where
  "str_opt d = (case d of None \<Rightarrow> ''None'' | Some s \<Rightarrow> s)"

definition render_html :: "pylib \<Rightarrow> summary \<Rightarrow> string \<Rightarrow> string \<Rightarrow> string" where
  "render_html L analysis line_rel bar_rel = concat
     [''<!doctype html>'', nl,
      ''<html>'', nl,
      ''<head>'', nl,
      ''  <meta charset='', dq, ''utf-8'', dq, ''/>'', nl,
      ''  <title>Informe de Costos EC2</title>'', nl,
      ''  <style>'', nl,
      ''    body { font-family: Arial, sans-serif; margin: 40px; }'', nl,
      ''    table { border-collapse: collapse; }'', nl,
      ''    th, td { border: 1px solid #ddd; padding: 8px; }'', nl,
      ''    th { background: #f2f2f2; }'', nl,
      ''    img { max-width: 100%; height: auto; }'', nl,
      ''  </style>'', nl,
      ''</head>'', nl,
      ''<body>'', nl,
      ''  <h1>Informe de An'', a_acute, ''lisis de Costos de Instancias EC2</h1>'', nl,
      nl,
      ''  <h2>Resumen</h2>'', nl,
      ''  <table>'', nl,
      ''    <tr><th>Costo Total (USD)</th><td>'', format4f L (total_cost analysis), ''</td></tr>'', nl,
      ''    <tr><th>Costo Promedio Diario (USD)</th><td>'', format4f L (average_cost analysis),
        ''</td></tr>'', nl,
      ''    <tr><th>D'', i_acute, ''a con Mayor Costo</th><td>'', str_opt (max_cost_date analysis),
        '' ('', format4f L (max_cost analysis), '' USD)</td></tr>'', nl,
      ''    <tr><th>D'', i_acute, ''a con Menor Costo</th><td>'', str_opt (min_cost_date analysis),
        '' ('', format4f L (min_cost analysis), '' USD)</td></tr>'', nl,
      ''  </table>'', nl,
      nl,
      ''  <h2>Gr'', a_acute, ''fico: Costo Diario</h2>'', nl,
      ''  <img src='', dq, line_rel, dq, '' alt='', dq, ''Costo diario'', dq, ''/>'', nl,
      nl,
      ''  <h2>Gr'', a_acute, ''fico: Costo por Tipo de Instancia</h2>'', nl,
      ''  <img src='', dq, bar_rel, dq, '' alt='', dq, ''Costo por tipo de instancia'', dq, ''/>'', nl,
      nl,
      ''  <p>Generado el '', utcnow L, '' UTC</p>'', nl,
      ''</body>'', nl,
      ''</html>'', nl]"

text \<open>
  The report file is \<open>None\<close> while it does not exist, and its contents otherwise.
  \<open>open(path, "w")\<close> creates the file or empties it; \<open>f.write(s)\<close> appends to it. What
  the operating system does to the two calls is the \<open>fault\<close> of the run: none, the open
  fails, or the write fails once \<open>n\<close> bytes are in the file. Leaving the \<open>with\<close> block
  closes the file and changes nothing more.
\<close>

datatype fault = NoFault | OpenFails | WriteFails nat

definition py_open_w :: "fault \<Rightarrow> string option \<Rightarrow> error + string option" where
  "py_open_w flt file = (case flt of OpenFails \<Rightarrow> Inl OSError | _ \<Rightarrow> Inr (Some []))"

definition py_write :: "fault \<Rightarrow> string \<Rightarrow> string option \<Rightarrow> error option \<times> string option" where
  "py_write flt s file =
     (let old = (case file of None \<Rightarrow> [] | Some t \<Rightarrow> t)
      in case flt of
           WriteFails n \<Rightarrow> (Some OSError, Some (old @ take n s))
         | _ \<Rightarrow> (None, Some (old @ s)))"

definition write_html ::
  "pylib \<Rightarrow> fault \<Rightarrow> summary \<Rightarrow> string \<Rightarrow> string \<Rightarrow> string \<Rightarrow> string option \<Rightarrow> error option \<times> string option" where
  "write_html L flt analysis line_plot bar_plot report_path file =
     (let line_rel = relpath L line_plot (dirname L report_path);
          bar_rel = relpath L bar_plot (dirname L report_path);
          html = render_html L analysis line_rel bar_rel
      in case py_open_w flt file of
           Inl e \<Rightarrow> (Some e, file)
         | Inr f \<Rightarrow> py_write flt html f)"

section \<open>The pipeline\<close>

text \<open>
  \<open>os.path.join\<close> on POSIX. The files the script touches: the two inputs, each absent
  (\<open>None\<close>) or holding what \<open>json.load\<close> returns or raises on it, the two chart images
  and the report. Directories are not modelled.
\<close>

definition path_join :: "string \<Rightarrow> string \<Rightarrow> string" where
  "path_join a b =
     (if b \<noteq> [] \<and> hd b = CHR ''/'' then b
      else if a = [] \<or> last a = CHR ''/'' then a @ b
      else a @ ''/'' @ b)"

record world =
  type_file :: "(error + json) option"
  daily_file :: "(error + json) option"
  line_png :: "(timestamp \<times> real) list option"
  bar_png :: "(string \<times> real) list option"
  report_file :: "string option"

text \<open>
  The instance-type labels of the by-type table as strings. The script puts whatever
  JSON value stands first among the keys of a group into the column; what pandas and
  matplotlib make of labels that are not strings is not modelled.
\<close>

fun label_rows ::
  "(nat \<times> ('d, json) cost_by_type) list \<Rightarrow> error + (nat \<times> ('d, string) cost_by_type) list" where
  "label_rows [] = Inr []"
| "label_rows ((i, r) # rs) =
     (case InstanceType r of
        JStr s \<Rightarrow> ebind (label_rows rs) (\<lambda>rs'.
                   Inr ((i, \<lparr>Date = Date r, Cost = Cost r, InstanceType = s\<rparr>) # rs'))
      | _ \<Rightarrow> Inl NotModelled)"

definition label_strings ::
  "('d, json) cost_by_type frame \<Rightarrow> error + ('d, string) cost_by_type frame" where
  "label_strings df = ebind (label_rows (rows df)) (\<lambda>rs. Inr \<lparr>columns = columns df, rows = rs\<rparr>)"

definition main :: "pylib \<Rightarrow> fault \<Rightarrow> string \<Rightarrow> string \<Rightarrow> world \<Rightarrow> error option \<times> world" where
  "main L flt in_dir out_dir w =
     (let images_dir = path_join out_dir ''images'';
          type_path = path_join in_dir ''ec2_cost_data_per_instance_type.json'';
          report_path = path_join out_dir ''ec2_cost_report.html''
      in case type_file w of
           None \<Rightarrow> (Some (SystemExit (''Falta archivo requerido: '' @ type_path)), w)
         | Some tj \<Rightarrow>
      (case ebind tj (df_by_type L) of
           Inl e \<Rightarrow> (Some e, w)
         | Inr df_type \<Rightarrow>
      (case (case daily_file w of
               Some dj \<Rightarrow> ebind dj (df_daily_total L)
             | None \<Rightarrow> derive_daily_from_type df_type) of
           Inl e \<Rightarrow> (Some e, w)
         | Inr df_daily \<Rightarrow>
      (case analyze L df_daily of
           Inl e \<Rightarrow> (Some e, w)
         | Inr analysis \<Rightarrow>
      (case plot_daily df_daily of
           Inl e \<Rightarrow> (Some e, w)
         | Inr line \<Rightarrow>
      (case ebind (label_strings df_type) plot_by_type of
           Inl e \<Rightarrow> (Some e, w\<lparr>line_png := Some line\<rparr>)
         | Inr bars \<Rightarrow>
      (case write_html L flt analysis (path_join images_dir ''cost_over_time.png'')
              (path_join images_dir ''cost_per_instance_type.png'') report_path (report_file w) of
           (err, file) \<Rightarrow>
             (err, w\<lparr>line_png := Some line, bar_png := Some bars, report_file := file\<rparr>))))))))"

text \<open>
  The document of a run of \<open>main\<close> with the output directory \<open>out_dir\<close> and the
  summary \<open>a\<close>: \<open>write_html\<close> is called with these paths.
\<close>

definition report_html :: "pylib \<Rightarrow> string \<Rightarrow> summary \<Rightarrow> string" where
  "report_html L out_dir a =
     render_html L a
       (relpath L (path_join (path_join out_dir ''images'') ''cost_over_time.png'')
          (dirname L (path_join out_dir ''ec2_cost_report.html'')))
       (relpath L (path_join (path_join out_dir ''images'') ''cost_per_instance_type.png'')
          (dirname L (path_join out_dir ''ec2_cost_report.html'')))"

section \<open>Costs in float64\<close>

text \<open>
  The functions above add costs exactly. Python and pandas add them in float64, where
  every addition rounds, so that the order of the additions matters. A float is the real
  number it stands for. \<open>round_f64 x\<close> is the float nearest to \<open>x\<close>: the multiple of
  the unit in the last place \<open>u\<close> of \<open>x\<close> (the power of two with
  \<open>2 ^ 52 * u \<le> \<bar>x\<bar> < 2 ^ 53 * u\<close>, searched from 1 in at most 2200 steps, which
  covers every binade of float64) nearest to \<open>x\<close>, the even one of two equally
  near. Overflow, subnormal numbers, infinities and NaN are not modelled.
\<close>

definition round_half_even :: "real \<Rightarrow> int" where
  "round_half_even q =
     (let f = \<lfloor>q\<rfloor>; d = q - of_int f
      in if d < 1 / 2 then f else if 1 / 2 < d then f + 1 else if even f then f else f + 1)"

fun ulp_search :: "nat \<Rightarrow> real \<Rightarrow> real \<Rightarrow> real" where
  "ulp_search 0 a u = u"
| "ulp_search (Suc n) a u =
     (if a < 2 ^ 52 * u then ulp_search n a (u / 2)
      else if 2 ^ 53 * u \<le> a then ulp_search n a (2 * u)
      else u)"

definition round_f64 :: "real \<Rightarrow> real" where
  "round_f64 x =
     (if x = 0 then 0
      else let u = ulp_search 2200 \<bar>x\<bar> 1 in u * of_int (round_half_even (x / u)))"

text \<open>\<open>x + y\<close> and \<open>x - y\<close> on floats.\<close>

definition fadd :: "real \<Rightarrow> real \<Rightarrow> real" where
  "fadd x y = round_f64 (x + y)"

definition fsub :: "real \<Rightarrow> real \<Rightarrow> real" where
  "fsub x y = round_f64 (x - y)"

text \<open>
  The sum of one group in \<open>groupby(...).sum()\<close>: the loop of pandas' \<open>group_sum\<close>,
  Kahan's compensated summation (\<open>y = val - compensation; t = sumx + y;
  compensation = t - sumx - y; sumx = t\<close>).
\<close>

fun kahan :: "real list \<Rightarrow> real \<Rightarrow> real \<Rightarrow> real" where
  "kahan [] sumx c = sumx"
| "kahan (v # vs) sumx c =
     (let y = fsub v c; t = fadd sumx y
      in kahan vs t (fsub (fsub t sumx) y))"

definition kahan_sum :: "real list \<Rightarrow> real" where
  "kahan_sum vs = kahan vs 0 0"

text \<open>
  The sum of a list of costs taken in float64, the costs added one after the other from 0
  (what \<open>Series.sum\<close> computes on a column of fewer than eight values).
\<close>

definition f64_sum :: "real list \<Rightarrow> real" where
  "f64_sum xs = foldl fadd 0 xs"

text \<open>
  \<open>groupby(col, as_index=False)["Cost"].sum()\<close> and \<open>derive_daily_from_type\<close> with
  the group sums taken in float64.
\<close>

definition group_sums_f64 :: "('r \<Rightarrow> 'k::linorder) \<Rightarrow> ('r \<Rightarrow> real) \<Rightarrow> 'r list \<Rightarrow> ('k \<times> real) list" where
  "group_sums_f64 key val rs =
     map (\<lambda>k. (k, kahan_sum (map val (filter (\<lambda>r. key r = k) rs)))) (sort (remdups (map key rs)))"

definition groupby_sum_f64 ::
  "string \<Rightarrow> ('r \<Rightarrow> 'k::linorder) \<Rightarrow> ('r \<Rightarrow> real) \<Rightarrow> ('k \<Rightarrow> real \<Rightarrow> 's) \<Rightarrow> 'r frame \<Rightarrow> error + 's frame" where
  "groupby_sum_f64 col key val mk df =
     (if col \<notin> set (columns df) then Inl (KeyError col)
      else if ''Cost'' \<notin> set (columns df) then Inl (KeyError ''Cost'')
      else Inr \<lparr>columns = [col, ''Cost''],
                rows = enumerate 0 (map (\<lambda>kc. mk (fst kc) (snd kc))
                         (group_sums_f64 key val (map snd (rows df))))\<rparr>)"

definition derive_daily_from_type_f64 ::
  "('d::linorder, 'z) cost_point_scheme frame \<Rightarrow> error + 'd cost_point frame" where
  "derive_daily_from_type_f64 df_type =
     ebind (groupby_sum_f64 ''Date'' Date Cost (\<lambda>d c. \<lparr>Date = d, Cost = c\<rparr>) df_type) (\<lambda>df.
       sort_values ''Date'' Date df)"

section \<open>Fields of an entry\<close>

text \<open>
  \<open>has_field e ks\<close>: the entry \<open>e\<close> has the field reached by the keys \<open>ks\<close>, one dict
  inside the other. \<open>entry_groups e\<close>: the groups of an entry whose \<open>Groups\<close> is a list.
\<close>

fun has_field :: "json \<Rightarrow> string list \<Rightarrow> bool" where
  "has_field j [] = True"
| "has_field (JObj kvs) (k # ks) = (case map_of kvs k of None \<Rightarrow> False | Some v \<Rightarrow> has_field v ks)"
| "has_field _ (k # ks) = False"

text \<open>
  \<open>daily_point L e\<close>: the CostPoint a well-formed entry \<open>e\<close> of the total series
  stands for, its period start as a timestamp and its amount as a number.
\<close>

definition daily_point :: "pylib \<Rightarrow> json \<Rightarrow> error + timestamp cost_point" where
  "daily_point L e =
     ebind (daily_total_record L e) (\<lambda>r.
     ebind (to_datetime L (Date r)) (\<lambda>d. Inr \<lparr>Date = d, Cost = Cost r\<rparr>))"

definition entry_groups :: "json \<Rightarrow> json list" where
  "entry_groups e =
     (case e of
        JObj kvs \<Rightarrow> (case map_of kvs ''Groups'' of Some (JArr gs) \<Rightarrow> gs | _ \<Rightarrow> [])
      | _ \<Rightarrow> [])"

section \<open>Sample inputs\<close>

text \<open>
  A library that knows two dates and three amounts, and the grouped series of the
  scenario of the specification: two instance types on 2024-01-01, one on 2024-01-02.
\<close>

definition sample_lib :: pylib where
  "sample_lib = \<lparr>
     to_datetime = (\<lambda>j. case j of
         JStr s \<Rightarrow> (if s = ''2024-01-01'' then Inr 1
                    else if s = ''2024-01-02'' then Inr 2 else Inl ValueError)
       | _ \<Rightarrow> Inl TypeError),
     float_of_str = (\<lambda>s. if s = ''1.0'' then Some 1 else if s = ''2.5'' then Some (5 / 2)
                          else if s = ''1.2'' then Some (6 / 5) else None),
     strftime = (\<lambda>t. if t = 1 then ''2024-01-01'' else if t = 2 then ''2024-01-02'' else ''?''),
     format4f = (\<lambda>r. if r = 0 then ''0.0000'' else ''?''),
     relpath = (\<lambda>p d. p),
     dirname = (\<lambda>p. ''output''),
     utcnow = ''2024-01-03 00:00:00''\<rparr>"

definition group_json :: "string \<Rightarrow> string \<Rightarrow> json" where
  "group_json t a =
     JObj [(''Keys'', JArr [JStr t]),
           (''Metrics'', JObj [(''UnblendedCost'', JObj [(''Amount'', JStr a)])])]"

definition entry_json :: "string \<Rightarrow> json list \<Rightarrow> json" where
  "entry_json d gs = JObj [(''TimePeriod'', JObj [(''Start'', JStr d)]), (''Groups'', JArr gs)]"

definition total_json :: "string \<Rightarrow> string \<Rightarrow> json" where
  "total_json d a =
     JObj [(''TimePeriod'', JObj [(''Start'', JStr d)]),
           (''Total'', JObj [(''UnblendedCost'', JObj [(''Amount'', JStr a)])])]"

definition sample_grouped :: json where
  "sample_grouped =
     JArr [entry_json ''2024-01-01'' [group_json ''t2.micro'' ''1.0'', group_json ''m5.large'' ''2.5''],
           entry_json ''2024-01-02'' [group_json ''t2.micro'' ''1.2'']]"

definition sample_daily :: "timestamp cost_point frame" where
  "sample_daily =
     \<lparr>columns = [''Date'', ''Cost''],
      rows = [(0, \<lparr>Date = 1, Cost = 7 / 2\<rparr>), (1, \<lparr>Date = 2, Cost = 6 / 5\<rparr>)]\<rparr>"

definition sample_by_type :: "(timestamp, string) cost_by_type frame" where
  "sample_by_type =
     \<lparr>columns = [''Date'', ''InstanceType'', ''Cost''],
      rows = [(0, \<lparr>Date = 1, Cost = 1, InstanceType = ''t2.micro''\<rparr>),
              (1, \<lparr>Date = 1, Cost = 5 / 2, InstanceType = ''m5.large''\<rparr>),
              (2, \<lparr>Date = 2, Cost = 6 / 5, InstanceType = ''t2.micro''\<rparr>)]\<rparr>"

definition entry_without_groups :: json where
  "entry_without_groups = JObj [(''TimePeriod'', JObj [(''Start'', JStr ''2024-01-02'')])]"

definition entry_without_period :: json where
  "entry_without_period = JObj [(''Groups'', JArr [group_json ''t2.micro'' ''1.0''])]"

text \<open>
  A run whose total series (2.5 on 2024-01-01) differs from the sum of its grouped series
  (1.0 on 2024-01-01), and the all-zero summary.
\<close>

definition sample_world :: world where
  "sample_world =
     \<lparr>type_file = Some (Inr (JArr [entry_json ''2024-01-01'' [group_json ''t2.micro'' ''1.0'']])),
      daily_file = Some (Inr (JArr [total_json ''2024-01-01'' ''2.5''])),
      line_png = None, bar_png = None, report_file = None\<rparr>"

definition zero_summary :: summary where
  "zero_summary = \<lparr>total_cost = 0, average_cost = 0, max_cost = 0, max_cost_date = None,
                    min_cost = 0, min_cost_date = None\<rparr>"

text \<open>
  A table whose costs are the floats of 0.1 on one day and of 0.2 and 0.7 on the next,
  and the table \<open>derive_daily_from_type\<close> makes of it in float64.
\<close>

definition float_table :: "(timestamp, string) cost_by_type frame" where
  "float_table =
     \<lparr>columns = [''Date'', ''InstanceType'', ''Cost''],
      rows = [(0, \<lparr>Date = 1, Cost = round_f64 (1 / 10), InstanceType = ''t2.micro''\<rparr>),
              (1, \<lparr>Date = 2, Cost = round_f64 (2 / 10), InstanceType = ''t2.micro''\<rparr>),
              (2, \<lparr>Date = 2, Cost = round_f64 (7 / 10), InstanceType = ''m5.large''\<rparr>)]\<rparr>"

definition float_daily :: "timestamp cost_point frame" where
  "float_daily =
     \<lparr>columns = [''Date'', ''Cost''],
      rows = [(0, \<lparr>Date = 1, Cost = 3602879701896397 / 2 ^ 55\<rparr>),
              (1, \<lparr>Date = 2, Cost = 2026619832316723 / 2 ^ 51\<rparr>)]\<rparr>"

section \<open>Basic facts\<close>

lemma ebind_Inl [simp]: "ebind (Inl e) f = Inl e"
  by (simp add: ebind_def)

lemma ebind_Inr [simp]: "ebind (Inr x) f = f x"
  by (simp add: ebind_def)

lemma ebind_eq_Inr: "ebind m f = Inr y \<longleftrightarrow> (\<exists>x. m = Inr x \<and> f x = Inr y)"
  by (cases m) simp_all

subsection \<open>The extremal values are values of the column\<close>

lemma fold_max_in: "fold max xs (x::real) \<in> set (x # xs)"
proof (induction xs arbitrary: x)
  case Nil
  show ?case by simp
next
  case (Cons y ys)
  have "fold max ys (max y x) \<in> set (max y x # ys)" by (rule Cons.IH)
  moreover have "max y x = x \<or> max y x = y" by (simp add: max_def)
  ultimately show ?case by auto
qed

lemma fold_min_in: "fold min xs (x::real) \<in> set (x # xs)"
proof (induction xs arbitrary: x)
  case Nil
  show ?case by simp
next
  case (Cons y ys)
  have "fold min ys (min y x) \<in> set (min y x # ys)" by (rule Cons.IH)
  moreover have "min y x = x \<or> min y x = y" by (simp add: min_def)
  ultimately show ?case by auto
qed

lemma list_max_in: "cs \<noteq> [] \<Longrightarrow> list_max cs \<in> set cs"
  using fold_max_in by (cases cs) auto

lemma list_min_in: "cs \<noteq> [] \<Longrightarrow> list_min cs \<in> set cs"
  using fold_min_in by (cases cs) auto

lemma idx_of_member:
  assumes "v \<in> set (map (\<lambda>ir. Cost (snd ir)) rs)"
  shows "\<exists>ir. ir \<in> set rs \<and> idx_of v rs = Inr (fst ir)"
proof -
  from assms obtain jr where "jr \<in> set rs" "Cost (snd jr) = v" by auto
  then have "find (\<lambda>ir. Cost (snd ir) = v) rs \<noteq> None"
    unfolding find_None_iff by blast
  then obtain ir where f: "find (\<lambda>ir. Cost (snd ir) = v) rs = Some ir" by blast
  then have "ir \<in> set rs"
    by (auto simp: find_Some_iff in_set_conv_nth)
  with f show ?thesis unfolding idx_of_def by (intro exI [of _ ir]) simp
qed

lemma filter_label_unique:
  "distinct (map fst rs) \<Longrightarrow> ir \<in> set rs \<Longrightarrow> filter (\<lambda>jr. fst jr = fst ir) rs = [ir]"
proof (induction rs)
  case Nil
  then show ?case by simp
next
  case (Cons a rs)
  show ?case
  proof (cases "a = ir")
    case True
    with Cons.prems have "fst ir \<notin> fst ` set rs" by simp
    then have "\<forall>jr\<in>set rs. fst jr \<noteq> fst ir" by (metis imageI)
    then have "filter (\<lambda>jr. fst jr = fst ir) rs = []" by (simp add: filter_empty_conv)
    with True show ?thesis by simp
  next
    case False
    with Cons.prems have "ir \<in> set rs" by simp
    with Cons.prems have "fst a \<noteq> fst ir"
      by (metis distinct.simps(2) image_eqI list.simps(9) set_map)
    with Cons \<open>ir \<in> set rs\<close> show ?thesis by simp
  qed
qed

lemma loc_date_str_unique:
  assumes "''Date'' \<in> set (columns df)" "distinct (map fst (rows df))" "ir \<in> set (rows df)"
  shows "loc_date_str L df (fst ir) = Inr (strftime L (Date (snd ir)))"
  using assms by (simp add: loc_date_str_def filter_label_unique)

subsection \<open>Group sums and sorting\<close>

lemma sum_list_indicator:
  "distinct ks \<Longrightarrow> sum_list (map (\<lambda>k. if a = k then (v::real) else 0) ks) = (if a \<in> set ks then v else 0)"
  by (induction ks) auto

lemma sum_groups:
  assumes "distinct ks"
  shows "sum_list (map (\<lambda>k. sum_list (map val (filter (\<lambda>r. key r = k) rs))) ks)
           = sum_list (map (val :: 'r \<Rightarrow> real) (filter (\<lambda>r. key r \<in> set ks) rs))"
proof (induction rs)
  case Nil
  show ?case by simp
next
  case (Cons r rs)
  have "sum_list (map (\<lambda>k. sum_list (map val (filter (\<lambda>r. key r = k) (r # rs)))) ks)
          = sum_list (map (\<lambda>k. (if key r = k then val r else 0)
                               + sum_list (map val (filter (\<lambda>r. key r = k) rs))) ks)"
    by (rule arg_cong [where f = sum_list]) (rule map_cong, auto)
  also have "\<dots> = sum_list (map (\<lambda>k. if key r = k then val r else 0) ks)
                   + sum_list (map (\<lambda>k. sum_list (map val (filter (\<lambda>r. key r = k) rs))) ks)"
    by (simp add: sum_list_addf)
  also have "\<dots> = (if key r \<in> set ks then val r else 0)
                   + sum_list (map val (filter (\<lambda>r. key r \<in> set ks) rs))"
    using assms by (simp add: sum_list_indicator Cons.IH)
  finally show ?case by simp
qed

lemma group_sums_keys:
  "map fst (group_sums key val rs) = sort (remdups (map key rs))"
  by (simp add: group_sums_def comp_def)

lemma group_sums_total:
  "sum_list (map snd (group_sums key val rs)) = sum_list (map val rs)"
proof -
  let ?ks = "sort (remdups (map key rs))"
  have d: "distinct ?ks" by simp
  have s: "set ?ks = key ` set rs" by simp
  have "sum_list (map snd (group_sums key val rs))
          = sum_list (map (\<lambda>k. sum_list (map val (filter (\<lambda>r. key r = k) rs))) ?ks)"
    by (simp add: group_sums_def comp_def)
  also have "\<dots> = sum_list (map val (filter (\<lambda>r. key r \<in> set ?ks) rs))"
    by (rule sum_groups [OF d])
  also have "filter (\<lambda>r. key r \<in> set ?ks) rs = rs"
    unfolding s by (simp add: filter_id_conv)
  finally show ?thesis .
qed

lemma group_sums_member:
  "kc \<in> set (group_sums key val rs) \<Longrightarrow>
     snd kc = sum_list (map val (filter (\<lambda>r. key r = fst kc) rs))"
  by (auto simp: group_sums_def)

lemma sum_list_map_mset:
  "mset xs = mset ys \<Longrightarrow> sum_list (map (f :: 'a \<Rightarrow> real) xs) = sum_list (map f ys)"
proof -
  assume "mset xs = mset ys"
  then have "sum_mset (image_mset f (mset xs)) = sum_mset (image_mset f (mset ys))" by simp
  then show ?thesis by (simp add: sum_mset_sum_list flip: mset_map)
qed

lemma map_snd_enumerate_fun: "map (\<lambda>ir. f (snd ir)) (enumerate n xs) = map f xs"
  by (induction xs arbitrary: n) simp_all

lemma groupby_sum_rows:
  assumes "col \<in> set (columns df)" "''Cost'' \<in> set (columns df)"
  shows "groupby_sum col key val mk df
           = Inr \<lparr>columns = [col, ''Cost''],
                  rows = enumerate 0 (map (\<lambda>kc. mk (fst kc) (snd kc)) (group_sums key val (map snd (rows df))))\<rparr>"
  using assms by (simp add: groupby_sum_def)

lemma mset_map_sort_key: "mset (map f (sort_key k xs)) = mset (map f xs)"
  by simp

lemma set_map_sort_key: "set (map f (sort_key k xs)) = set (map f xs)"
  by simp

lemma distinct_map_sort_key: "distinct (map f (sort_key k xs)) = distinct (map f xs)"
  by (rule mset_eq_imp_distinct_iff) (rule mset_map_sort_key)

lemma sum_list_map_sort_key: "sum_list (map (f :: 'a \<Rightarrow> real) (sort_key k xs)) = sum_list (map f xs)"
  by (rule sum_list_map_mset) simp

lemma mset_map_rev_sort_key: "mset (map f (rev (sort_key k (rev xs)))) = mset (map f xs)"
  by simp

subsection \<open>The normalised tables are never empty\<close>

lemma df_by_type_empty: "df_by_type L (JArr []) = Inl (KeyError ''Date'')"
  by (simp add: df_by_type_def DataFrame_def assign_to_datetime_def)

lemma convert_rows_length:
  "convert_rows L get build rs = Inr rs' \<Longrightarrow> length rs' = length rs"
proof (induction rs arbitrary: rs')
  case Nil
  then show ?case by simp
next
  case (Cons a rs)
  obtain i r where a: "a = (i, r)" by (cases a)
  from Cons.prems obtain d rs'' where
    "convert_rows L get build rs = Inr rs''" "rs' = (i, build r d) # rs''"
    unfolding a by (auto simp: ebind_eq_Inr)
  with Cons.IH show ?case by simp
qed

lemma assign_to_datetime_rows:
  assumes "assign_to_datetime L get build (DataFrame ks rec) = Inr df"
  shows "rec \<noteq> [] \<and> length (rows df) = length rec \<and> columns df = ks"
proof -
  from assms have ne: "rec \<noteq> []"
    by (auto simp: assign_to_datetime_def DataFrame_def split: if_splits)
  with assms obtain rs where "convert_rows L get build (enumerate 0 rec) = Inr rs"
    "df = \<lparr>columns = ks, rows = rs\<rparr>"
    by (auto simp: assign_to_datetime_def DataFrame_def ebind_eq_Inr split: if_splits)
  with ne convert_rows_length show ?thesis by fastforce
qed

lemma df_by_type_nonempty:
  assumes "df_by_type L j = Inr df"
  shows "rows df \<noteq> [] \<and> columns df = [''Date'', ''InstanceType'', ''Cost'']"
proof -
  from assms obtain rec :: "(json, json) cost_by_type list"
      and df0 :: "(timestamp, json) cost_by_type frame" where
    a: "assign_to_datetime L Date (\<lambda>r d. \<lparr>Date = d, Cost = Cost r, InstanceType = InstanceType r\<rparr>)
          (DataFrame [''Date'', ''InstanceType'', ''Cost''] rec) = Inr df0"
    and s: "sort_values ''Date'' Date df0 = Inr df"
    unfolding df_by_type_def ebind_eq_Inr by blast
  from assign_to_datetime_rows [OF a]
  have r: "rec \<noteq> []" "length (rows df0) = length rec" "columns df0 = [''Date'', ''InstanceType'', ''Cost'']"
    by simp_all
  from s r have dfeq: "df = df0\<lparr>rows := sort_key (\<lambda>ir. Date (snd ir)) (rows df0)\<rparr>"
    by (simp add: sort_values_def)
  have "length (rows df) = length rec" unfolding dfeq using r(2) by simp
  with r(1) have "rows df \<noteq> []" by auto
  moreover have "columns df = [''Date'', ''InstanceType'', ''Cost'']" unfolding dfeq using r(3) by simp
  ultimately show ?thesis by simp
qed

subsection \<open>A table is returned only when every entry has its fields\<close>

lemma getitem_Inr: "getitem e k = Inr v \<longleftrightarrow> (\<exists>kvs. e = JObj kvs \<and> map_of kvs k = Some v)"
  by (cases e) (auto split: option.splits)

lemma has_field_step:
  "getitem e k = Inr v \<Longrightarrow> has_field e (k # ks) = has_field v ks"
  by (auto simp: getitem_Inr)

lemma has_field_fail:
  "\<not> has_field e (k # ks) \<Longrightarrow> getitem e k = Inr v \<Longrightarrow> \<not> has_field v ks"
  by (simp add: has_field_step)

lemma daily_total_record_fields:
  assumes "daily_total_record L e = Inr r"
  shows "has_field e [''TimePeriod'', ''Start''] \<and> has_field e [''Total'', ''UnblendedCost'', ''Amount'']"
proof -
  from assms obtain tp start tot uc amount where
    g: "getitem e ''TimePeriod'' = Inr tp" "getitem tp ''Start'' = Inr start"
       "getitem e ''Total'' = Inr tot" "getitem tot ''UnblendedCost'' = Inr uc"
       "getitem uc ''Amount'' = Inr amount"
    unfolding daily_total_record_def ebind_eq_Inr by blast
  show ?thesis by (simp add: has_field_step [OF g(1)] has_field_step [OF g(2)]
      has_field_step [OF g(3)] has_field_step [OF g(4)] has_field_step [OF g(5)])
qed

lemma daily_total_loop_entries:
  "daily_total_loop L es rec = Inr out \<Longrightarrow> e \<in> set es \<Longrightarrow> \<exists>r. daily_total_record L e = Inr r"
proof (induction es arbitrary: rec)
  case Nil
  then show ?case by simp
next
  case (Cons a es)
  from Cons.prems(1) obtain r where r: "daily_total_record L a = Inr r"
    "daily_total_loop L es (rec @ [r]) = Inr out"
    by (auto simp: ebind_eq_Inr)
  show ?case
  proof (cases "e = a")
    case True
    with r(1) show ?thesis by blast
  next
    case False
    with Cons.prems(2) have "e \<in> set es" by simp
    with Cons.IH r(2) show ?thesis by blast
  qed
qed

lemma df_daily_total_entries:
  assumes "df_daily_total L (JArr es) = Inr df" "e \<in> set es"
  shows "\<exists>r. daily_total_record L e = Inr r"
proof -
  from assms(1) obtain rec where "daily_total_loop L es [] = Inr rec"
    unfolding df_daily_total_def by (auto simp: ebind_eq_Inr)
  then show ?thesis using assms(2) by (rule daily_total_loop_entries)
qed

lemma by_type_record_fields:
  assumes "by_type_record L date g = Inr r"
  shows "has_field g [''Metrics'', ''UnblendedCost'', ''Amount'']"
proof -
  from assms obtain m uc amount where
    g: "getitem g ''Metrics'' = Inr m" "getitem m ''UnblendedCost'' = Inr uc"
       "getitem uc ''Amount'' = Inr amount"
    unfolding by_type_record_def ebind_eq_Inr by blast
  show ?thesis by (simp add: has_field_step [OF g(1)] has_field_step [OF g(2)] has_field_step [OF g(3)])
qed

lemma group_loop_groups:
  "group_loop L date gs rec = Inr out \<Longrightarrow> g \<in> set gs \<Longrightarrow> \<exists>r. by_type_record L date g = Inr r"
proof (induction gs arbitrary: rec)
  case Nil
  then show ?case by simp
next
  case (Cons a gs)
  from Cons.prems(1) obtain r where r: "by_type_record L date a = Inr r"
    "group_loop L date gs (rec @ [r]) = Inr out"
    by (auto simp: ebind_eq_Inr)
  show ?case
  proof (cases "g = a")
    case True
    with r(1) show ?thesis by blast
  next
    case False
    with Cons.prems(2) have "g \<in> set gs" by simp
    with Cons.IH r(2) show ?thesis by blast
  qed
qed

lemma by_type_entry_fields:
  assumes "by_type_entry L e rec = Inr out"
  shows "has_field e [''TimePeriod'', ''Start'']
         \<and> (\<forall>g \<in> set (entry_groups e). has_field g [''Metrics'', ''UnblendedCost'', ''Amount''])"
proof -
  from assms obtain tp date groups gs where
    g: "getitem e ''TimePeriod'' = Inr tp" "getitem tp ''Start'' = Inr date"
    and grp: "get_default e ''Groups'' (JArr []) = Inr groups" "py_iter groups = Inr gs"
    and loop: "group_loop L date gs rec = Inr out"
    unfolding by_type_entry_def ebind_eq_Inr by blast
  have a: "has_field e [''TimePeriod'', ''Start'']"
    by (simp add: has_field_step [OF g(1)] has_field_step [OF g(2)])
  have b: "\<forall>g \<in> set (entry_groups e). has_field g [''Metrics'', ''UnblendedCost'', ''Amount'']"
  proof
    fix x assume x: "x \<in> set (entry_groups e)"
    from g(1) obtain kvs where e: "e = JObj kvs" by (auto simp: getitem_Inr)
    from x e obtain xs where xs: "map_of kvs ''Groups'' = Some (JArr xs)" "x \<in> set xs"
      by (auto simp: entry_groups_def split: option.splits json.splits) metis
    with grp e have "gs = xs" by auto
    with xs(2) loop obtain r where "by_type_record L date x = Inr r"
      using group_loop_groups by blast
    then show "has_field x [''Metrics'', ''UnblendedCost'', ''Amount'']"
      by (rule by_type_record_fields)
  qed
  from a b show ?thesis by simp
qed

lemma by_type_loop_entries:
  "by_type_loop L es rec = Inr out \<Longrightarrow> e \<in> set es \<Longrightarrow> \<exists>rec0 rec1. by_type_entry L e rec0 = Inr rec1"
proof (induction es arbitrary: rec)
  case Nil
  then show ?case by simp
next
  case (Cons a es)
  from Cons.prems(1) obtain rec' where r: "by_type_entry L a rec = Inr rec'"
    "by_type_loop L es rec' = Inr out"
    by (auto simp: ebind_eq_Inr)
  show ?case
  proof (cases "e = a")
    case True
    with r(1) show ?thesis by blast
  next
    case False
    with Cons.prems(2) have "e \<in> set es" by simp
    with Cons.IH r(2) show ?thesis by blast
  qed
qed

lemma df_by_type_entries:
  assumes "df_by_type L (JArr es) = Inr df" "e \<in> set es"
  shows "\<exists>rec0 rec1. by_type_entry L e rec0 = Inr rec1"
proof -
  from assms(1) obtain rec where "by_type_loop L es [] = Inr rec"
    unfolding df_by_type_def by (auto simp: ebind_eq_Inr)
  then show ?thesis using assms(2) by (rule by_type_loop_entries)
qed

lemma not_Inr_is_Inl: "(\<And>y. m \<noteq> Inr y) \<Longrightarrow> \<exists>err. m = Inl err"
  by (cases m) auto

lemma by_type_loop_append:
  "by_type_loop L (xs @ ys) rec = ebind (by_type_loop L xs rec) (by_type_loop L ys)"
proof (induction xs arbitrary: rec)
  case Nil
  show ?case by simp
next
  case (Cons a xs)
  show ?case
  proof (cases "by_type_entry L a rec")
    case (Inl err)
    then show ?thesis by simp
  next
    case (Inr rec')
    then show ?thesis by (simp add: Cons.IH)
  qed
qed

lemma has_field_period_start:
  assumes "has_field e [''TimePeriod'', ''Start'']"
  shows "\<exists>tp date. getitem e ''TimePeriod'' = Inr tp \<and> getitem tp ''Start'' = Inr date"
proof -
  from assms obtain kvs tp where e: "e = JObj kvs" "map_of kvs ''TimePeriod'' = Some tp"
    "has_field tp [''Start'']"
    by (cases e) (auto split: option.splits)
  from e(3) obtain kvs' date where "tp = JObj kvs'" "map_of kvs' ''Start'' = Some date"
    by (cases tp) (auto split: option.splits)
  with e show ?thesis by simp
qed

subsection \<open>Runs of the pipeline\<close>

lemma write_html_cases:
  "write_html L flt a lp bp rp file =
     (case flt of
        NoFault \<Rightarrow> (None, Some (render_html L a (relpath L lp (dirname L rp)) (relpath L bp (dirname L rp))))
      | OpenFails \<Rightarrow> (Some OSError, file)
      | WriteFails n \<Rightarrow>
          (Some OSError, Some (take n (render_html L a (relpath L lp (dirname L rp)) (relpath L bp (dirname L rp))))))"
  by (cases flt) (simp_all add: write_html_def py_open_w_def py_write_def Let_def)

lemma write_html_ok:
  "fst (write_html L flt a lp bp rp file) = None \<Longrightarrow>
     snd (write_html L flt a lp bp rp file)
       = Some (render_html L a (relpath L lp (dirname L rp)) (relpath L bp (dirname L rp)))"
  by (cases flt) (simp_all add: write_html_cases)

lemma main_success:
  assumes "fst (main L flt in_dir out_dir w) = None"
  shows "\<exists>tj dft df a line bars.
           type_file w = Some tj
         \<and> ebind tj (df_by_type L) = Inr dft
         \<and> (case daily_file w of Some dj \<Rightarrow> ebind dj (df_daily_total L)
                                | None \<Rightarrow> derive_daily_from_type dft) = Inr df
         \<and> analyze L df = Inr a
         \<and> plot_daily df = Inr line
         \<and> ebind (label_strings dft) plot_by_type = Inr bars
         \<and> line_png (snd (main L flt in_dir out_dir w)) = Some line
         \<and> bar_png (snd (main L flt in_dir out_dir w)) = Some bars
         \<and> report_file (snd (main L flt in_dir out_dir w)) = Some (report_html L out_dir a)"
proof -
  from assms obtain tj where tj: "type_file w = Some tj"
    by (cases "type_file w") (simp_all add: main_def Let_def)
  from assms tj obtain dft where dft: "ebind tj (df_by_type L) = Inr dft"
    by (cases "ebind tj (df_by_type L)") (simp_all add: main_def Let_def)
  let ?sel = "case daily_file w of Some dj \<Rightarrow> ebind dj (df_daily_total L)
                                | None \<Rightarrow> derive_daily_from_type dft"
  from assms tj dft obtain df where df: "?sel = Inr df"
    by (cases ?sel) (simp_all add: main_def Let_def)
  from assms tj dft df obtain a where a: "analyze L df = Inr a"
    by (cases "analyze L df") (simp_all add: main_def Let_def)
  from assms tj dft df a obtain line where line: "plot_daily df = Inr line"
    by (cases "plot_daily df") (simp_all add: main_def Let_def)
  from assms tj dft df a line obtain bars where bars: "ebind (label_strings dft) plot_by_type = Inr bars"
    by (cases "ebind (label_strings dft) plot_by_type") (simp_all add: main_def Let_def)
  let ?wh = "write_html L flt a (path_join (path_join out_dir ''images'') ''cost_over_time.png'')
              (path_join (path_join out_dir ''images'') ''cost_per_instance_type.png'')
              (path_join out_dir ''ec2_cost_report.html'') (report_file w)"
  have m: "main L flt in_dir out_dir w
             = (fst ?wh, w\<lparr>line_png := Some line, bar_png := Some bars, report_file := snd ?wh\<rparr>)"
    using tj dft df a line bars by (simp add: main_def Let_def split: prod.splits)
  with assms have "fst ?wh = None" by simp
  then have "snd ?wh = Some (report_html L out_dir a)"
    unfolding report_html_def by (rule write_html_ok)
  with m tj dft df a line bars show ?thesis by simp
qed

lemma main_failure_keeps_report:
  "fst (main L NoFault in_dir out_dir w) = None
   \<or> report_file (snd (main L NoFault in_dir out_dir w)) = report_file w"
  by (simp add: main_def Let_def write_html_cases split: option.splits sum.splits)

lemma sample_total_frame:
  "df_daily_total sample_lib (JArr [total_json ''2024-01-01'' ''2.5''])
     = Inr \<lparr>columns = [''Date'', ''Cost''], rows = [(0, \<lparr>Date = 1, Cost = 5 / 2\<rparr>)]\<rparr>"
  by (simp add: df_daily_total_def daily_total_record_def total_json_def sample_lib_def
      DataFrame_def assign_to_datetime_def sort_values_def enumerate_eq_zip)

lemma sample_type_frame:
  "df_by_type sample_lib (JArr [entry_json ''2024-01-01'' [group_json ''t2.micro'' ''1.0'']])
     = Inr \<lparr>columns = [''Date'', ''InstanceType'', ''Cost''],
            rows = [(0, \<lparr>Date = 1, Cost = 1, InstanceType = JStr ''t2.micro''\<rparr>)]\<rparr>"
  by (simp add: df_by_type_def by_type_entry_def entry_json_def group_json_def by_type_record_def
      sample_lib_def DataFrame_def assign_to_datetime_def sort_values_def enumerate_eq_zip)

lemma sample_run_ok: "fst (main sample_lib NoFault ''.'' ''output'' sample_world) = None"
  by (simp add: main_def sample_world_def sample_total_frame sample_type_frame Let_def
      analyze_def empty_frame_def idx_of_def loc_date_str_def plot_daily_def
      label_strings_def plot_by_type_def groupby_sum_def group_sums_def sort_values_desc_def
      write_html_cases enumerate_eq_zip split: prod.splits)

subsection \<open>The total series with at least one entry\<close>

lemma daily_total_loop_points:
  "list_all2 (\<lambda>e p. daily_point L e = Inr p) es ps \<Longrightarrow>
     \<exists>rs. daily_total_loop L es acc = Inr (acc @ rs)
        \<and> list_all2 (\<lambda>r p. to_datetime L (Date r) = Inr (Date p) \<and> p = \<lparr>Date = Date p, Cost = Cost r\<rparr>) rs ps"
proof (induction es ps arbitrary: acc rule: list_all2_induct)
  case Nil
  show ?case by simp
next
  case (Cons e es p ps)
  from Cons.hyps(1) obtain r d where r: "daily_total_record L e = Inr r"
    "to_datetime L (Date r) = Inr d" "p = \<lparr>Date = d, Cost = Cost r\<rparr>"
    unfolding daily_point_def ebind_eq_Inr by auto
  from Cons.IH [of "acc @ [r]"] obtain rs where rs:
    "daily_total_loop L es (acc @ [r]) = Inr ((acc @ [r]) @ rs)"
    "list_all2 (\<lambda>r p. to_datetime L (Date r) = Inr (Date p) \<and> p = \<lparr>Date = Date p, Cost = Cost r\<rparr>) rs ps"
    by blast
  have "daily_total_loop L (e # es) acc = Inr (acc @ (r # rs))"
    using r(1) rs(1) by simp
  moreover have "list_all2 (\<lambda>r p. to_datetime L (Date r) = Inr (Date p) \<and> p = \<lparr>Date = Date p, Cost = Cost r\<rparr>) (r # rs) (p # ps)"
    using r(2,3) rs(2) by simp
  ultimately show ?case by blast
qed

lemma convert_rows_points:
  "list_all2 (\<lambda>r p. to_datetime L (Date r) = Inr (Date p) \<and> p = \<lparr>Date = Date p, Cost = Cost r\<rparr>) rs ps \<Longrightarrow>
     length ixs = length rs \<Longrightarrow>
     convert_rows L Date (\<lambda>r d. \<lparr>Date = d, Cost = Cost r\<rparr>) (zip ixs rs) = Inr (zip ixs ps)"
proof (induction rs ps arbitrary: ixs rule: list_all2_induct)
  case Nil
  then show ?case by simp
next
  case (Cons r rs p ps)
  from Cons.prems obtain i ixs' where ixs: "ixs = i # ixs'" "length ixs' = length rs"
    by (cases ixs) auto
  from Cons.IH [OF ixs(2)] Cons.hyps(1) show ?case
    unfolding ixs(1) by simp
qed

lemma df_daily_total_roundtrip:
  assumes ne: "es \<noteq> []"
    and wf: "list_all2 (\<lambda>e p. daily_point L e = Inr p) es ps"
  shows "\<exists>df. df_daily_total L (JArr es) = Inr df
           \<and> length (rows df) = length es
           \<and> sorted (map (\<lambda>ir. Date (snd ir)) (rows df))
           \<and> mset (map snd (rows df)) = mset ps"
proof -
  from daily_total_loop_points [OF wf, of "[]"] obtain rs where
    loop: "daily_total_loop L es [] = Inr rs"
    and conv: "list_all2 (\<lambda>r p. to_datetime L (Date r) = Inr (Date p) \<and> p = \<lparr>Date = Date p, Cost = Cost r\<rparr>) rs ps"
    by auto
  from wf have len: "length ps = length es" by (simp add: list_all2_lengthD)
  from conv have len': "length rs = length ps" by (simp add: list_all2_lengthD)
  from ne len len' have rne: "rs \<noteq> []" by auto
  define z where "z = zip [0..<length rs] ps"
  define df :: "timestamp cost_point frame"
    where "df = \<lparr>columns = [''Date'', ''Cost''], rows = sort_key (\<lambda>ir. Date (snd ir)) z\<rparr>"
  have c: "convert_rows L Date (\<lambda>r d. \<lparr>Date = d, Cost = Cost r\<rparr>) (zip [0..<length rs] rs) = Inr z"
    unfolding z_def by (rule convert_rows_points [OF conv]) simp
  have run: "df_daily_total L (JArr es) = Inr df"
    using loop rne c
    by (simp add: df_daily_total_def DataFrame_def assign_to_datetime_def sort_values_def
        enumerate_eq_zip df_def)
  have sz: "map snd z = ps" unfolding z_def using len' by simp
  have lz: "length z = length es" unfolding z_def using len len' by simp
  have l: "length (rows df) = length es" unfolding df_def using lz by simp
  have s: "sorted (map (\<lambda>ir. Date (snd ir)) (rows df))"
    unfolding df_def by (simp add: sorted_sort_key)
  have "mset (map snd (rows df)) = mset (map snd z)"
    unfolding df_def by simp
  then have m: "mset (map snd (rows df)) = mset ps" by (simp only: sz)
  from run l s m show ?thesis by blast
qed

subsection \<open>The exception is that of the first entry that cannot be read\<close>

lemma daily_total_loop_append:
  "daily_total_loop L (xs @ ys) acc = ebind (daily_total_loop L xs acc) (daily_total_loop L ys)"
proof (induction xs arbitrary: acc)
  case Nil
  show ?case by simp
next
  case (Cons a xs)
  show ?case
  proof (cases "daily_total_record L a")
    case (Inl err)
    then show ?thesis by simp
  next
    case (Inr r)
    then show ?thesis by (simp add: Cons.IH)
  qed
qed

lemma df_daily_total_first_error:
  assumes "daily_total_loop L es1 [] = Inr acc" "daily_total_record L e = Inl err"
  shows "df_daily_total L (JArr (es1 @ e # es2)) = Inl err"
  using assms by (simp add: df_daily_total_def daily_total_loop_append)

lemma df_by_type_first_error:
  assumes "by_type_loop L es1 [] = Inr acc" "by_type_entry L e acc = Inl err"
  shows "df_by_type L (JArr (es1 @ e # es2)) = Inl err"
  using assms by (simp add: df_by_type_def by_type_loop_append)

lemma missing_key_is_KeyError:
  assumes "map_of kvs ''TimePeriod'' = None"
  shows "daily_total_record L (JObj kvs) = Inl (KeyError ''TimePeriod'')"
    and "by_type_entry L (JObj kvs) acc = Inl (KeyError ''TimePeriod'')"
  using assms by (simp_all add: daily_total_record_def by_type_entry_def)

subsection \<open>The scenario of the specification\<close>

lemma sample_grouped_frame:
  "df_by_type sample_lib sample_grouped
     = Inr \<lparr>columns = [''Date'', ''InstanceType'', ''Cost''],
            rows = [(0, \<lparr>Date = 1, Cost = 1, InstanceType = JStr ''t2.micro''\<rparr>),
                    (1, \<lparr>Date = 1, Cost = 5 / 2, InstanceType = JStr ''m5.large''\<rparr>),
                    (2, \<lparr>Date = 2, Cost = 6 / 5, InstanceType = JStr ''t2.micro''\<rparr>)]\<rparr>"
  by (simp add: df_by_type_def sample_grouped_def by_type_entry_def entry_json_def group_json_def
      by_type_record_def sample_lib_def DataFrame_def assign_to_datetime_def sort_values_def
      enumerate_eq_zip upt_rec)

lemma scenario_derived_daily:
  "ebind (df_by_type sample_lib sample_grouped) derive_daily_from_type = Inr sample_daily"
  by (simp add: sample_grouped_frame derive_daily_from_type_def groupby_sum_def group_sums_def
      sort_values_def sample_daily_def enumerate_eq_zip upt_rec)

lemma scenario_summary:
  "analyze sample_lib sample_daily
     = Inr \<lparr>total_cost = 47 / 10, average_cost = 47 / 20,
            max_cost = 7 / 2, max_cost_date = Some ''2024-01-01'',
            min_cost = 6 / 5, min_cost_date = Some ''2024-01-02''\<rparr>"
  by (simp add: analyze_def sample_daily_def empty_frame_def idx_of_def loc_date_str_def
      sample_lib_def)

subsection \<open>The first entry that cannot be read\<close>

lemma daily_total_loop_error:
  "daily_total_loop L es acc = Inl err \<Longrightarrow>
     \<exists>es1 x es2 acc'. es = es1 @ x # es2 \<and> daily_total_loop L es1 acc = Inr acc'
        \<and> daily_total_record L x = Inl err"
proof (induction es arbitrary: acc)
  case Nil
  then show ?case by simp
next
  case (Cons a es)
  show ?case
  proof (cases "daily_total_record L a")
    case (Inl e')
    with Cons.prems have "e' = err" by simp
    with Inl have "a # es = [] @ a # es \<and> daily_total_loop L [] acc = Inr acc
        \<and> daily_total_record L a = Inl err" by simp
    then show ?thesis by blast
  next
    case (Inr r)
    with Cons.prems have "daily_total_loop L es (acc @ [r]) = Inl err" by simp
    from Cons.IH [OF this] obtain es1 x es2 acc' where
      s: "es = es1 @ x # es2" "daily_total_loop L es1 (acc @ [r]) = Inr acc'"
         "daily_total_record L x = Inl err" by blast
    from s(2) Inr have "daily_total_loop L (a # es1) acc = Inr acc'" by simp
    with s(1,3) have "a # es = (a # es1) @ x # es2 \<and> daily_total_loop L (a # es1) acc = Inr acc'
        \<and> daily_total_record L x = Inl err" by simp
    then show ?thesis by blast
  qed
qed

lemma by_type_loop_error:
  "by_type_loop L es acc = Inl err \<Longrightarrow>
     \<exists>es1 x es2 acc'. es = es1 @ x # es2 \<and> by_type_loop L es1 acc = Inr acc'
        \<and> by_type_entry L x acc' = Inl err"
proof (induction es arbitrary: acc)
  case Nil
  then show ?case by simp
next
  case (Cons a es)
  show ?case
  proof (cases "by_type_entry L a acc")
    case (Inl e')
    with Cons.prems have "e' = err" by simp
    with Inl have "a # es = [] @ a # es \<and> by_type_loop L [] acc = Inr acc
        \<and> by_type_entry L a acc = Inl err" by simp
    then show ?thesis by blast
  next
    case (Inr acc1)
    with Cons.prems have "by_type_loop L es acc1 = Inl err" by simp
    from Cons.IH [OF this] obtain es1 x es2 acc' where
      s: "es = es1 @ x # es2" "by_type_loop L es1 acc1 = Inr acc'"
         "by_type_entry L x acc' = Inl err" by blast
    from s(2) Inr have "by_type_loop L (a # es1) acc = Inr acc'" by simp
    with s(1,3) have "a # es = (a # es1) @ x # es2 \<and> by_type_loop L (a # es1) acc = Inr acc'
        \<and> by_type_entry L x acc' = Inl err" by simp
    then show ?thesis by blast
  qed
qed

lemma df_daily_total_loop_error:
  "daily_total_loop L es [] = Inl err \<Longrightarrow> df_daily_total L (JArr es) = Inl err"
  by (simp add: df_daily_total_def)

lemma df_by_type_loop_error:
  "by_type_loop L es [] = Inl err \<Longrightarrow> df_by_type L (JArr es) = Inl err"
  by (simp add: df_by_type_def)

subsection \<open>Rounding to float64\<close>

lemma ulp_search_stay:
  assumes "2 ^ 52 * u \<le> a" "a < 2 ^ 53 * u"
  shows "ulp_search n a u = u"
  using assms by (cases n) simp_all

lemma ulp_search_down:
  assumes "0 < u" "2 ^ 52 * u \<le> a" "a < 2 ^ 53 * u" "j \<le> n"
  shows "ulp_search n a (u * 2 ^ j) = u"
  using assms(4)
proof (induction j arbitrary: n)
  case 0
  show ?case using assms(2,3) by (simp add: ulp_search_stay)
next
  case (Suc j)
  then obtain m where n: "n = Suc m" "j \<le> m" by (cases n) auto
  have "(1::real) \<le> 2 ^ j" by simp
  then have "u \<le> u * 2 ^ j" using assms(1) by simp
  then have "2 ^ 53 * u \<le> 2 ^ 52 * (u * 2 ^ Suc j)" by simp
  with assms(3) have lt: "a < 2 ^ 52 * (u * 2 ^ Suc j)" by linarith
  have "ulp_search n a (u * 2 ^ Suc j) = ulp_search m a (u * 2 ^ Suc j / 2)"
    unfolding n(1) using lt by simp
  also have "u * 2 ^ Suc j / 2 = u * 2 ^ j" by simp
  also have "ulp_search m a (u * 2 ^ j) = u" using n(2) by (rule Suc.IH)
  finally show ?case .
qed

lemma round_f64_scaled:
  assumes "x \<noteq> 0" "j \<le> 2200" "2 ^ 52 \<le> \<bar>x\<bar> * 2 ^ j" "\<bar>x\<bar> * 2 ^ j < 2 ^ 53"
  shows "round_f64 x = of_int (round_half_even (x * 2 ^ j)) / 2 ^ j"
proof -
  define u :: real where "u = 1 / 2 ^ j"
  have u: "0 < u" by (simp add: u_def)
  have one: "u * 2 ^ j = 1" by (simp add: u_def)
  have lo: "2 ^ 52 * u \<le> \<bar>x\<bar>" using assms(3) by (simp add: u_def field_simps)
  have hi: "\<bar>x\<bar> < 2 ^ 53 * u" using assms(4) by (simp add: u_def field_simps)
  have "ulp_search 2200 \<bar>x\<bar> (u * 2 ^ j) = u"
    using u lo hi assms(2) by (rule ulp_search_down)
  then have "ulp_search 2200 \<bar>x\<bar> 1 = u" by (simp only: one)
  then have "round_f64 x = u * of_int (round_half_even (x / u))"
    using assms(1) by (simp add: round_f64_def)
  also have "x / u = x * 2 ^ j" by (simp add: u_def)
  finally show ?thesis by (simp add: u_def)
qed

lemma round_half_even_int [simp]: "round_half_even (of_int n) = n"
  by (simp add: round_half_even_def)

lemma round_f64_zero [simp]: "round_f64 0 = 0"
  by (simp add: round_f64_def)

lemma round_f64_exact:
  assumes "j \<le> 2200" "2 ^ 52 \<le> \<bar>n\<bar>" "\<bar>n\<bar> < 2 ^ 53"
  shows "round_f64 (of_int n / 2 ^ j) = of_int n / 2 ^ j"
proof -
  let ?x = "of_int n / (2::real) ^ j"
  have s: "?x * 2 ^ j = of_int n" by simp
  have a: "\<bar>?x\<bar> * 2 ^ j = of_int \<bar>n\<bar>" by (simp add: abs_mult)
  from assms(2) have nz: "?x \<noteq> 0" by auto
  have lo: "2 ^ 52 \<le> \<bar>?x\<bar> * 2 ^ j" unfolding a using assms(2) by (metis of_int_le_iff of_int_numeral of_int_power)
  have hi: "\<bar>?x\<bar> * 2 ^ j < 2 ^ 53" unfolding a using assms(3) by (metis of_int_less_iff of_int_numeral of_int_power)
  show ?thesis
    unfolding round_f64_scaled [OF nz assms(1) lo hi] s by simp
qed

lemma f64_a: "round_f64 (1 / 10) = 3602879701896397 / 2 ^ 55"
  by (subst round_f64_scaled [where j = 56]) (simp_all add: round_half_even_def Let_def)

lemma f64_b: "round_f64 (2 / 10) = 3602879701896397 / 2 ^ 54"
  by (subst round_f64_scaled [where j = 55]) (simp_all add: round_half_even_def Let_def)

lemma f64_c: "round_f64 (7 / 10) = 3152519739159347 / 2 ^ 52"
  by (subst round_f64_scaled [where j = 53]) (simp_all add: round_half_even_def Let_def)

lemma f64_a_exact: "round_f64 (3602879701896397 / 2 ^ 55) = 3602879701896397 / 2 ^ 55"
  using round_f64_exact [of 56 7205759403792794] by simp

lemma f64_b_exact: "round_f64 (3602879701896397 / 2 ^ 54) = 3602879701896397 / 2 ^ 54"
  using round_f64_exact [of 55 7205759403792794] by simp

lemma f64_c_exact: "round_f64 (3152519739159347 / 2 ^ 52) = 3152519739159347 / 2 ^ 52"
  using round_f64_exact [of 53 6305039478318694] by simp

lemma f64_bc: "round_f64 (3602879701896397 / 2 ^ 54 + 3152519739159347 / 2 ^ 52) = 2026619832316723 / 2 ^ 51"
  by (subst round_f64_scaled [where j = 53]) (simp_all add: round_half_even_def Let_def)

lemma f64_out: "round_f64 (3602879701896397 / 2 ^ 55 + 2026619832316723 / 2 ^ 51) = 9007199254740991 / 2 ^ 53"
  by (subst round_f64_scaled [where j = 53]) (simp_all add: round_half_even_def Let_def)

lemma f64_ab: "round_f64 (3602879701896397 / 2 ^ 55 + 3602879701896397 / 2 ^ 54) = 1351079888211149 / 2 ^ 52"
  by (subst round_f64_scaled [where j = 54]) (simp_all add: round_half_even_def Let_def)

lemma f64_in: "round_f64 (1351079888211149 / 2 ^ 52 + 3152519739159347 / 2 ^ 52) = 1"
  by (subst round_f64_scaled [where j = 52]) (simp_all add: round_half_even_def Let_def)

lemma float_table_rows:
  "rows float_table =
     [(0, \<lparr>Date = 1, Cost = 3602879701896397 / 2 ^ 55, InstanceType = ''t2.micro''\<rparr>),
      (1, \<lparr>Date = 2, Cost = 3602879701896397 / 2 ^ 54, InstanceType = ''t2.micro''\<rparr>),
      (2, \<lparr>Date = 2, Cost = 3152519739159347 / 2 ^ 52, InstanceType = ''m5.large''\<rparr>)]"
  unfolding float_table_def f64_a f64_b f64_c by simp

lemma kahan_one: "kahan_sum [3602879701896397 / 2 ^ 55] = 3602879701896397 / 2 ^ 55"
  unfolding kahan_sum_def kahan.simps Let_def fadd_def fsub_def
  by (simp only: diff_zero add_0 f64_a_exact)

lemma kahan_two:
  "kahan_sum [3602879701896397 / 2 ^ 54, 3152519739159347 / 2 ^ 52] = 2026619832316723 / 2 ^ 51"
  unfolding kahan_sum_def kahan.simps Let_def fadd_def fsub_def
  by (simp only: diff_zero add_0 f64_b_exact f64_c_exact diff_self round_f64_zero f64_bc)

lemma naive_two:
  "f64_sum [3602879701896397 / 2 ^ 54, 3152519739159347 / 2 ^ 52] = 2026619832316723 / 2 ^ 51"
  unfolding f64_sum_def foldl.simps fadd_def
  by (simp only: add_0 f64_b_exact f64_bc)

lemma float_derived: "derive_daily_from_type_f64 float_table = Inr float_daily"
proof -
  have cols: "columns float_table = [''Date'', ''InstanceType'', ''Cost'']"
    by (simp add: float_table_def)
  have gs: "group_sums_f64 Date Cost (map snd (rows float_table))
              = [(1, 3602879701896397 / 2 ^ 55), (2, 2026619832316723 / 2 ^ 51)]"
    unfolding float_table_rows group_sums_f64_def
    by (simp add: kahan_one kahan_two del: power_numeral)
  show ?thesis
    unfolding derive_daily_from_type_f64_def groupby_sum_f64_def cols gs
    by (simp add: sort_values_def float_daily_def enumerate_eq_zip upt_rec del: power_numeral)
qed

lemma float_out_sum:
  "f64_sum (map (\<lambda>ir. Cost (snd ir)) (rows float_daily)) = 9007199254740991 / 2 ^ 53"
proof -
  have "f64_sum (map (\<lambda>ir. Cost (snd ir)) (rows float_daily))
          = f64_sum [3602879701896397 / 2 ^ 55, 2026619832316723 / 2 ^ 51]"
    by (simp add: float_daily_def del: power_numeral)
  also have "\<dots> = 9007199254740991 / 2 ^ 53"
    unfolding f64_sum_def foldl.simps fadd_def
    by (simp only: add_0 f64_a_exact f64_out)
  finally show ?thesis .
qed

lemma float_in_sum:
  "f64_sum (map (\<lambda>ir. Cost (snd ir)) (rows float_table)) = 1"
proof -
  have "f64_sum (map (\<lambda>ir. Cost (snd ir)) (rows float_table))
          = f64_sum [3602879701896397 / 2 ^ 55, 3602879701896397 / 2 ^ 54, 3152519739159347 / 2 ^ 52]"
    unfolding float_table_rows by (simp del: power_numeral)
  also have "\<dots> = 1"
    unfolding f64_sum_def foldl.simps fadd_def
    by (simp only: add_0 f64_a_exact f64_ab f64_in)
  finally show ?thesis .
qed

section \<open>The claims\<close>

text \<open>
  C1. For every non-empty sequence of CostPoint records, \<open>analyze\<close> returns a summary
  whose \<open>total_cost\<close> is the sum of all cost values and whose \<open>average_cost\<close> is
  \<open>total_cost\<close> divided by the number of records. The sequence is a frame with the
  columns \<open>Date\<close> and \<open>Cost\<close>, at least one row, and distinct index labels, as every
  frame of the script has; costs are real numbers, so the equalities are exact, which is
  what the floating-point tolerance of the claim stands for.
\<close>

theorem analyze_total_average:
  assumes ne: "rows df \<noteq> []"
    and dcol: "''Date'' \<in> set (columns df)"
    and ccol: "''Cost'' \<in> set (columns df)"
    and lbl: "distinct (map fst (rows df))"
  shows "\<exists>s. analyze L df = Inr s
           \<and> total_cost s = sum_list (map (\<lambda>ir. Cost (snd ir)) (rows df))
           \<and> average_cost s = total_cost s / real (length (rows df))"
proof -
  let ?cs = "map (\<lambda>ir. Cost (snd ir)) (rows df)"
  from ne have cne: "?cs \<noteq> []" by simp
  from ccol have nonempty: "\<not> empty_frame df" using ne by (auto simp: empty_frame_def)
  obtain a where a: "a \<in> set (rows df)" "idx_of (list_max ?cs) (rows df) = Inr (fst a)"
    using idx_of_member [OF list_max_in [OF cne]] by blast
  obtain b where b: "b \<in> set (rows df)" "idx_of (list_min ?cs) (rows df) = Inr (fst b)"
    using idx_of_member [OF list_min_in [OF cne]] by blast
  have la: "loc_date_str L df (fst a) = Inr (strftime L (Date (snd a)))"
    using loc_date_str_unique [OF dcol lbl a(1)] .
  have lb: "loc_date_str L df (fst b) = Inr (strftime L (Date (snd b)))"
    using loc_date_str_unique [OF dcol lbl b(1)] .
  show ?thesis
    using nonempty ccol a(2) b(2) la lb by (simp add: analyze_def Let_def)
qed

theorem analyze_total_average_witness:
  "rows sample_daily \<noteq> []
   \<and> ''Date'' \<in> set (columns sample_daily)
   \<and> ''Cost'' \<in> set (columns sample_daily)
   \<and> distinct (map fst (rows sample_daily))
   \<and> (\<exists>s. analyze sample_lib sample_daily = Inr s
          \<and> total_cost s = sum_list (map (\<lambda>ir. Cost (snd ir)) (rows sample_daily))
          \<and> average_cost s = total_cost s / real (length (rows sample_daily)))"
proof -
  have h1: "rows sample_daily \<noteq> []" by (simp add: sample_daily_def)
  have h2: "''Date'' \<in> set (columns sample_daily)" by (simp add: sample_daily_def)
  have h3: "''Cost'' \<in> set (columns sample_daily)" by (simp add: sample_daily_def)
  have h4: "distinct (map fst (rows sample_daily))" by (simp add: sample_daily_def)
  note c = analyze_total_average [OF h1 h2 h3 h4, of sample_lib]
  show ?thesis using h1 h2 h3 h4 c by blast
qed

text \<open>
  C6. \<open>analyze\<close> applied to an empty CostPoint sequence (a frame with no row, with or
  without columns) returns the summary with the four amounts 0 and both dates
  \<open>None\<close>; it does not fail.
\<close>

theorem analyze_empty:
  "rows df = [] \<Longrightarrow>
   analyze L df = Inr \<lparr>total_cost = 0, average_cost = 0, max_cost = 0, max_cost_date = None,
                       min_cost = 0, min_cost_date = None\<rparr>"
  by (simp add: analyze_def empty_frame_def)

theorem analyze_empty_witness:
  "rows (DataFrame [''Date'', ''Cost''] ([] :: timestamp cost_point list)) = []
   \<and> analyze sample_lib (DataFrame [''Date'', ''Cost''] ([] :: timestamp cost_point list))
       = Inr \<lparr>total_cost = 0, average_cost = 0, max_cost = 0, max_cost_date = None,
               min_cost = 0, min_cost_date = None\<rparr>"
proof -
  have h: "rows (DataFrame [''Date'', ''Cost''] ([] :: timestamp cost_point list)) = []"
    by (simp add: DataFrame_def)
  note c = analyze_empty [OF h, of sample_lib]
  show ?thesis using h c by blast
qed

text \<open>
  C3, as the code has it. On a table with the columns \<open>Date\<close> and \<open>Cost\<close> (every
  table built from at least one record has them) \<open>derive_daily_from_type\<close> returns one
  row per distinct date of the input, in ascending order of the dates, and preserves the
  grand total to within floating-point tolerance: when costs are added exactly, the costs
  of the output sum to the sum of the costs of the input.
\<close>

theorem derive_daily_preserves_total:
  fixes df :: "('d::linorder, 'z) cost_point_scheme frame"
  assumes dcol: "''Date'' \<in> set (columns df)"
    and ccol: "''Cost'' \<in> set (columns df)"
  shows "\<exists>out. derive_daily_from_type df = Inr out
           \<and> sum_list (map (\<lambda>ir. Cost (snd ir)) (rows out)) = sum_list (map (\<lambda>ir. Cost (snd ir)) (rows df))
           \<and> distinct (map (\<lambda>ir. Date (snd ir)) (rows out))
           \<and> set (map (\<lambda>ir. Date (snd ir)) (rows out)) = set (map (\<lambda>ir. Date (snd ir)) (rows df))
           \<and> sorted (map (\<lambda>ir. Date (snd ir)) (rows out))"
proof -
  define gs where "gs = group_sums Date Cost (map snd (rows df))"
  define g :: "(nat \<times> 'd cost_point) list"
    where "g = enumerate 0 (map (\<lambda>kc. \<lparr>Date = fst kc, Cost = snd kc\<rparr>) gs)"
  define out :: "'d cost_point frame"
    where "out = \<lparr>columns = [''Date'', ''Cost''], rows = sort_key (\<lambda>ir. Date (snd ir)) g\<rparr>"
  have run: "derive_daily_from_type df = Inr out"
    unfolding derive_daily_from_type_def groupby_sum_rows [OF dcol ccol]
    by (simp add: sort_values_def out_def g_def gs_def)
  have ro: "rows out = sort_key (\<lambda>ir. Date (snd ir)) g" by (simp add: out_def)
  have dates_g: "map (\<lambda>ir. Date (snd ir)) g = map fst gs"
    unfolding g_def map_snd_enumerate_fun by (simp add: comp_def)
  have costs_g: "map (\<lambda>ir. Cost (snd ir)) g = map snd gs"
    unfolding g_def map_snd_enumerate_fun by (simp add: comp_def)
  have keys: "map fst gs = sort (remdups (map (\<lambda>ir. Date (snd ir)) (rows df)))"
    unfolding gs_def group_sums_keys by (simp add: comp_def)
  have total: "sum_list (map (\<lambda>ir. Cost (snd ir)) (rows out)) = sum_list (map (\<lambda>ir. Cost (snd ir)) (rows df))"
  proof -
    have "sum_list (map (\<lambda>ir. Cost (snd ir)) (rows out)) = sum_list (map (\<lambda>ir. Cost (snd ir)) g)"
      unfolding ro by (rule sum_list_map_sort_key)
    also have "\<dots> = sum_list (map snd gs)" by (simp only: costs_g)
    also have "\<dots> = sum_list (map Cost (map snd (rows df)))"
      unfolding gs_def by (rule group_sums_total)
    also have "\<dots> = sum_list (map (\<lambda>ir. Cost (snd ir)) (rows df))" by (simp add: comp_def)
    finally show ?thesis .
  qed
  have dist: "distinct (map (\<lambda>ir. Date (snd ir)) (rows out))"
    unfolding ro distinct_map_sort_key dates_g keys by simp
  have sets: "set (map (\<lambda>ir. Date (snd ir)) (rows out)) = set (map (\<lambda>ir. Date (snd ir)) (rows df))"
    unfolding ro set_map_sort_key dates_g keys by simp
  have srt: "sorted (map (\<lambda>ir. Date (snd ir)) (rows out))"
    unfolding ro by (rule sorted_sort_key)
  show ?thesis using run total dist sets srt by blast
qed

theorem derive_daily_preserves_total_witness:
  "''Date'' \<in> set (columns sample_by_type)
   \<and> ''Cost'' \<in> set (columns sample_by_type)
   \<and> (\<exists>out. derive_daily_from_type sample_by_type = Inr out
          \<and> sum_list (map (\<lambda>ir. Cost (snd ir)) (rows out))
              = sum_list (map (\<lambda>ir. Cost (snd ir)) (rows sample_by_type))
          \<and> distinct (map (\<lambda>ir. Date (snd ir)) (rows out))
          \<and> set (map (\<lambda>ir. Date (snd ir)) (rows out))
              = set (map (\<lambda>ir. Date (snd ir)) (rows sample_by_type))
          \<and> sorted (map (\<lambda>ir. Date (snd ir)) (rows out)))"
proof -
  have h1: "''Date'' \<in> set (columns sample_by_type)" by (simp add: sample_by_type_def)
  have h2: "''Cost'' \<in> set (columns sample_by_type)" by (simp add: sample_by_type_def)
  note c = derive_daily_preserves_total [OF h1 h2]
  show ?thesis using h1 h2 c by blast
qed

text \<open>
  In float64 the two sums need not be equal. On the table with 0.1 on one day and 0.2 and
  0.7 on the next, the group sums are 0.1 and 0.8999999999999999 (Kahan's summation and
  plain addition agree on them, \<open>kahan_two\<close> and \<open>naive_two\<close>); added in float64 the
  output gives 0.9999999999999999 and the input 1.0, and added exactly the costs of the
  output and of the input differ as well.
\<close>

theorem float_sums_differ_counterexample:
  "derive_daily_from_type_f64 float_table = Inr float_daily
   \<and> f64_sum (map (\<lambda>ir. Cost (snd ir)) (rows float_daily)) = 9007199254740991 / 2 ^ 53
   \<and> f64_sum (map (\<lambda>ir. Cost (snd ir)) (rows float_table)) = 1
   \<and> f64_sum (map (\<lambda>ir. Cost (snd ir)) (rows float_daily))
       \<noteq> f64_sum (map (\<lambda>ir. Cost (snd ir)) (rows float_table))
   \<and> sum_list (map (\<lambda>ir. Cost (snd ir)) (rows float_daily))
       \<noteq> sum_list (map (\<lambda>ir. Cost (snd ir)) (rows float_table))"
proof -
  have "sum_list (map (\<lambda>ir. Cost (snd ir)) (rows float_daily))
          \<noteq> sum_list (map (\<lambda>ir. Cost (snd ir)) (rows float_table))"
    unfolding float_table_rows by (simp add: float_daily_def)
  with float_derived float_out_sum float_in_sum show ?thesis by simp
qed

text \<open>
  C7. For every CostByTypePoint table (a table with the columns \<open>InstanceType\<close> and
  \<open>Cost\<close>, its labels strings or of any other ordered type), the bar chart has one bar
  per distinct instance type, the height of a bar is the sum of the costs of the rows of
  its type, and the bars stand in descending order of their heights.
\<close>

theorem plot_by_type_bars:
  fixes df :: "('d, 'l::linorder) cost_by_type frame"
  assumes tcol: "''InstanceType'' \<in> set (columns df)"
    and ccol: "''Cost'' \<in> set (columns df)"
  shows "\<exists>bars. plot_by_type df = Inr bars
           \<and> distinct (map fst bars)
           \<and> set (map fst bars) = set (map (\<lambda>ir. InstanceType (snd ir)) (rows df))
           \<and> (\<forall>b \<in> set bars.
                 snd b = sum_list (map (\<lambda>ir. Cost (snd ir))
                                    (filter (\<lambda>ir. InstanceType (snd ir) = fst b) (rows df))))
           \<and> sorted (rev (map snd bars))"
proof -
  define gs where "gs = group_sums InstanceType Cost (map snd (rows df))"
  define e where "e = enumerate 0 gs"
  define s where "s = sort_key (\<lambda>ir. snd (snd ir)) (rev e)"
  define bars where "bars = map snd (rev s)"
  have same: "map (\<lambda>kc. (fst kc, snd kc)) gs = gs" by simp
  have run: "plot_by_type df = Inr bars"
    unfolding plot_by_type_def groupby_sum_rows [OF tcol ccol] same
    by (simp add: sort_values_desc_def bars_def s_def e_def gs_def)
  have snd_e: "map snd e = gs" unfolding e_def by (simp add: enumerate_eq_zip)
  have ms: "mset bars = mset gs"
  proof -
    have "mset bars = mset (map snd e)"
      unfolding bars_def s_def by (rule mset_map_rev_sort_key)
    then show ?thesis by (simp only: snd_e)
  qed
  have keys: "map fst gs = sort (remdups (map (\<lambda>ir. InstanceType (snd ir)) (rows df)))"
    unfolding gs_def group_sums_keys by (simp add: comp_def)
  have mk: "mset (map fst bars) = mset (map fst gs)"
    using ms by (metis mset_map)
  have dist: "distinct (map fst bars)"
  proof -
    have "distinct (map fst gs)" unfolding keys by simp
    with mk show ?thesis by (metis mset_eq_imp_distinct_iff)
  qed
  have sets: "set (map fst bars) = set (map (\<lambda>ir. InstanceType (snd ir)) (rows df))"
  proof -
    have "set (map fst bars) = set (map fst gs)" using mk by (rule mset_eq_setD)
    also have "\<dots> = set (map (\<lambda>ir. InstanceType (snd ir)) (rows df))" unfolding keys by simp
    finally show ?thesis .
  qed
  have heights: "\<forall>b \<in> set bars.
      snd b = sum_list (map (\<lambda>ir. Cost (snd ir)) (filter (\<lambda>ir. InstanceType (snd ir) = fst b) (rows df)))"
  proof
    fix b assume "b \<in> set bars"
    then have "b \<in> set gs" using ms by (metis mset_eq_setD)
    then have "snd b = sum_list (map Cost (filter (\<lambda>r. InstanceType r = fst b) (map snd (rows df))))"
      unfolding gs_def by (rule group_sums_member)
    also have "\<dots> = sum_list (map (\<lambda>ir. Cost (snd ir)) (filter (\<lambda>ir. InstanceType (snd ir) = fst b) (rows df)))"
      by (simp add: filter_map comp_def)
    finally show "snd b = sum_list (map (\<lambda>ir. Cost (snd ir)) (filter (\<lambda>ir. InstanceType (snd ir) = fst b) (rows df)))" .
  qed
  have srt: "sorted (rev (map snd bars))"
  proof -
    have "rev (map snd bars) = map (\<lambda>ir. snd (snd ir)) s"
      unfolding bars_def by (simp add: rev_map comp_def)
    also have "sorted \<dots>" unfolding s_def by (rule sorted_sort_key)
    finally show ?thesis .
  qed
  show ?thesis using run dist sets heights srt by blast
qed

theorem plot_by_type_bars_witness:
  "''InstanceType'' \<in> set (columns sample_by_type)
   \<and> ''Cost'' \<in> set (columns sample_by_type)
   \<and> (\<exists>bars. plot_by_type sample_by_type = Inr bars
          \<and> distinct (map fst bars)
          \<and> set (map fst bars) = set (map (\<lambda>ir. InstanceType (snd ir)) (rows sample_by_type))
          \<and> (\<forall>b \<in> set bars.
                snd b = sum_list (map (\<lambda>ir. Cost (snd ir))
                                   (filter (\<lambda>ir. InstanceType (snd ir) = fst b) (rows sample_by_type))))
          \<and> sorted (rev (map snd bars)))"
proof -
  have h1: "''InstanceType'' \<in> set (columns sample_by_type)" by (simp add: sample_by_type_def)
  have h2: "''Cost'' \<in> set (columns sample_by_type)" by (simp add: sample_by_type_def)
  note c = plot_by_type_bars [OF h1 h2]
  show ?thesis using h1 h2 c by blast
qed

text \<open>
  C2. When the grouped-series file holds the empty JSON array, the run does not produce
  the all-zero summary and a report: \<open>df_by_type\<close> builds a frame with no column, reading
  its \<open>Date\<close> column raises KeyError, and \<open>main\<close> ends there with every file as it
  was. (By \<open>df_by_type_nonempty\<close> the test \<open>df_daily.empty\<close> of \<open>analyze\<close> can
  never hold in a run of \<open>main\<close>.)
\<close>

theorem main_empty_grouped_series:
  "main L flt in_dir out_dir (w\<lparr>type_file := Some (Inr (JArr []))\<rparr>)
     = (Some (KeyError ''Date''), w\<lparr>type_file := Some (Inr (JArr []))\<rparr>)"
  by (simp add: main_def df_by_type_empty)

text \<open>
  C4. On the total series with no entry (N = 0) \<open>df_daily_total\<close> does not return
  a table with no row: it raises KeyError for the \<open>Date\<close> column. (With at least one
  entry the claim holds, by \<open>df_daily_total_roundtrip\<close>: N well-formed entries give N
  rows, sorted by date, the CostPoints of the entries and no others.)
\<close>

theorem df_daily_total_empty: "df_daily_total L (JArr []) = Inl (KeyError ''Date'')"
  by (simp add: df_daily_total_def DataFrame_def assign_to_datetime_def)

text \<open>
  C5, as the code has it. When an entry of the total series lacks the period start or the
  amount, \<open>df_daily_total\<close> returns no table: it ends with the exception that the loop
  body raises at the first entry it cannot read, all entries before that one having been
  read. So does \<open>df_by_type\<close> when an entry of the grouped series lacks the period
  start, or one of its groups lacks the amount. An entry of the grouped series with no
  \<open>Groups\<close> at all is not among these: it has no amount, and it is skipped without an
  error, as the counterexample shows.
\<close>

theorem missing_field_raises:
  assumes mem: "e \<in> set es"
  shows "(\<not> has_field e [''TimePeriod'', ''Start'']
            \<or> \<not> has_field e [''Total'', ''UnblendedCost'', ''Amount'']
          \<longrightarrow> (\<exists>es1 x es2 acc err. es = es1 @ x # es2
                  \<and> daily_total_loop L es1 [] = Inr acc
                  \<and> daily_total_record L x = Inl err
                  \<and> df_daily_total L (JArr es) = Inl err))
       \<and> (\<not> has_field e [''TimePeriod'', ''Start'']
            \<or> (\<exists>g \<in> set (entry_groups e). \<not> has_field g [''Metrics'', ''UnblendedCost'', ''Amount''])
          \<longrightarrow> (\<exists>es1 x es2 acc err. es = es1 @ x # es2
                  \<and> by_type_loop L es1 [] = Inr acc
                  \<and> by_type_entry L x acc = Inl err
                  \<and> df_by_type L (JArr es) = Inl err))"
proof (intro conjI impI)
  assume bad: "\<not> has_field e [''TimePeriod'', ''Start'']
                 \<or> \<not> has_field e [''Total'', ''UnblendedCost'', ''Amount'']"
  have "\<exists>err. daily_total_loop L es [] = Inl err"
  proof (rule not_Inr_is_Inl)
    fix out show "daily_total_loop L es [] \<noteq> Inr out"
    proof
      assume "daily_total_loop L es [] = Inr out"
      from daily_total_loop_entries [OF this mem] obtain r where "daily_total_record L e = Inr r" ..
      from daily_total_record_fields [OF this] bad show False by blast
    qed
  qed
  then obtain err where err: "daily_total_loop L es [] = Inl err" ..
  from daily_total_loop_error [OF err] df_daily_total_loop_error [OF err]
  show "\<exists>es1 x es2 acc err. es = es1 @ x # es2 \<and> daily_total_loop L es1 [] = Inr acc
          \<and> daily_total_record L x = Inl err \<and> df_daily_total L (JArr es) = Inl err"
    by blast
next
  assume bad: "\<not> has_field e [''TimePeriod'', ''Start'']
                 \<or> (\<exists>g \<in> set (entry_groups e). \<not> has_field g [''Metrics'', ''UnblendedCost'', ''Amount''])"
  have "\<exists>err. by_type_loop L es [] = Inl err"
  proof (rule not_Inr_is_Inl)
    fix out show "by_type_loop L es [] \<noteq> Inr out"
    proof
      assume "by_type_loop L es [] = Inr out"
      from by_type_loop_entries [OF this mem] obtain rec0 rec1
        where "by_type_entry L e rec0 = Inr rec1" by blast
      from by_type_entry_fields [OF this] bad show False by blast
    qed
  qed
  then obtain err where err: "by_type_loop L es [] = Inl err" ..
  from by_type_loop_error [OF err] df_by_type_loop_error [OF err]
  show "\<exists>es1 x es2 acc err. es = es1 @ x # es2 \<and> by_type_loop L es1 [] = Inr acc
          \<and> by_type_entry L x acc = Inl err \<and> df_by_type L (JArr es) = Inl err"
    by blast
qed

theorem missing_field_raises_witness:
  "entry_without_period \<in> set [total_json ''2024-01-01'' ''1.0'', entry_without_period]
   \<and> \<not> has_field entry_without_period [''TimePeriod'', ''Start'']
   \<and> (\<exists>err. df_daily_total sample_lib (JArr [total_json ''2024-01-01'' ''1.0'', entry_without_period]) = Inl err)
   \<and> (\<exists>err. df_by_type sample_lib (JArr [total_json ''2024-01-01'' ''1.0'', entry_without_period]) = Inl err)"
proof -
  have h1: "entry_without_period \<in> set [total_json ''2024-01-01'' ''1.0'', entry_without_period]"
    by simp
  have h2: "\<not> has_field entry_without_period [''TimePeriod'', ''Start'']"
    by (simp add: entry_without_period_def)
  note c = missing_field_raises [OF h1, of sample_lib]
  show ?thesis using h1 h2 c by blast
qed

theorem missing_groups_counterexample:
  "\<not> has_field entry_without_groups [''Groups'']
   \<and> df_by_type sample_lib
        (JArr [entry_json ''2024-01-01'' [group_json ''t2.micro'' ''1.0''], entry_without_groups])
       = Inr \<lparr>columns = [''Date'', ''InstanceType'', ''Cost''],
              rows = [(0, \<lparr>Date = 1, Cost = 1, InstanceType = JStr ''t2.micro''\<rparr>)]\<rparr>"
  by (simp add: df_by_type_def by_type_entry_def entry_json_def group_json_def by_type_record_def
      sample_lib_def entry_without_groups_def DataFrame_def assign_to_datetime_def sort_values_def
      enumerate_eq_zip)

text \<open>
  C10. An entry of the grouped series that has a period start and no \<open>Groups\<close> field
  adds no record and raises no error; the table is the one the series without that entry
  gives.
\<close>

theorem entry_without_groups_skipped:
  assumes obj: "e = JObj kvs"
    and nogroups: "map_of kvs ''Groups'' = None"
    and start: "has_field e [''TimePeriod'', ''Start'']"
  shows "by_type_entry L e rec = Inr rec
       \<and> df_by_type L (JArr (es1 @ e # es2)) = df_by_type L (JArr (es1 @ es2))"
proof -
  from has_field_period_start [OF start] obtain tp date where
    g: "getitem e ''TimePeriod'' = Inr tp" "getitem tp ''Start'' = Inr date" by blast
  have d: "get_default e ''Groups'' (JArr []) = Inr (JArr [])"
    using obj nogroups by simp
  have entry: "\<And>acc. by_type_entry L e acc = Inr acc"
    by (simp add: by_type_entry_def g d)
  have "by_type_loop L (es1 @ e # es2) [] = by_type_loop L (es1 @ es2) []"
  proof (cases "by_type_loop L es1 []")
    case (Inl err)
    then show ?thesis by (simp add: by_type_loop_append)
  next
    case (Inr acc)
    then show ?thesis by (simp add: by_type_loop_append entry)
  qed
  then have "df_by_type L (JArr (es1 @ e # es2)) = df_by_type L (JArr (es1 @ es2))"
    by (simp add: df_by_type_def)
  with entry show ?thesis by simp
qed

theorem entry_without_groups_skipped_witness:
  "entry_without_groups = JObj [(''TimePeriod'', JObj [(''Start'', JStr ''2024-01-02'')])]
   \<and> map_of [(''TimePeriod'', JObj [(''Start'', JStr ''2024-01-02'')])] ''Groups'' = None
   \<and> has_field entry_without_groups [''TimePeriod'', ''Start'']
   \<and> by_type_entry sample_lib entry_without_groups [] = Inr []
   \<and> df_by_type sample_lib (JArr ([entry_json ''2024-01-01'' [group_json ''t2.micro'' ''1.0'']]
                                     @ entry_without_groups # []))
       = df_by_type sample_lib (JArr ([entry_json ''2024-01-01'' [group_json ''t2.micro'' ''1.0'']] @ []))"
proof -
  have h1: "entry_without_groups = JObj [(''TimePeriod'', JObj [(''Start'', JStr ''2024-01-02'')])]"
    by (simp add: entry_without_groups_def)
  have h2: "map_of [(''TimePeriod'', JObj [(''Start'', JStr ''2024-01-02'')])] ''Groups'' = None"
    by simp
  have h3: "has_field entry_without_groups [''TimePeriod'', ''Start'']"
    by (simp add: entry_without_groups_def)
  note c = entry_without_groups_skipped [OF h1 h2 h3, of sample_lib "[]"
      "[entry_json ''2024-01-01'' [group_json ''t2.micro'' ''1.0'']]" "[]"]
  show ?thesis using h1 h2 h3 c by blast
qed

text \<open>
  C8. In a run that succeeds: when the total-series file is present, the line chart and
  the summary of the report are those of \<open>df_daily_total\<close> of that file, and they stay the
  same whatever the grouped-series file holds; the table derived from the grouped series
  is used when the total-series file is absent.
\<close>

theorem main_uses_total_series:
  assumes ok: "fst (main L flt in_dir out_dir w) = None"
  shows "(\<forall>dj. daily_file w = Some dj \<longrightarrow>
            (\<exists>df a line. ebind dj (df_daily_total L) = Inr df
               \<and> analyze L df = Inr a \<and> plot_daily df = Inr line
               \<and> line_png (snd (main L flt in_dir out_dir w)) = Some line
               \<and> report_file (snd (main L flt in_dir out_dir w)) = Some (report_html L out_dir a)))
       \<and> (daily_file w = None \<longrightarrow>
            (\<exists>tj dft df a line. type_file w = Some tj \<and> ebind tj (df_by_type L) = Inr dft
               \<and> derive_daily_from_type dft = Inr df
               \<and> analyze L df = Inr a \<and> plot_daily df = Inr line
               \<and> line_png (snd (main L flt in_dir out_dir w)) = Some line
               \<and> report_file (snd (main L flt in_dir out_dir w)) = Some (report_html L out_dir a)))
       \<and> (\<forall>dj t. daily_file w = Some dj
              \<longrightarrow> fst (main L flt in_dir out_dir (w\<lparr>type_file := t\<rparr>)) = None
              \<longrightarrow> line_png (snd (main L flt in_dir out_dir (w\<lparr>type_file := t\<rparr>)))
                    = line_png (snd (main L flt in_dir out_dir w))
                  \<and> report_file (snd (main L flt in_dir out_dir (w\<lparr>type_file := t\<rparr>)))
                    = report_file (snd (main L flt in_dir out_dir w)))"
proof (intro conjI allI impI)
  fix dj assume dj: "daily_file w = Some dj"
  from main_success [OF ok] dj
  show "\<exists>df a line. ebind dj (df_daily_total L) = Inr df
          \<and> analyze L df = Inr a \<and> plot_daily df = Inr line
          \<and> line_png (snd (main L flt in_dir out_dir w)) = Some line
          \<and> report_file (snd (main L flt in_dir out_dir w)) = Some (report_html L out_dir a)"
    by auto
next
  assume none: "daily_file w = None"
  from main_success [OF ok] none
  show "\<exists>tj dft df a line. type_file w = Some tj \<and> ebind tj (df_by_type L) = Inr dft
          \<and> derive_daily_from_type dft = Inr df
          \<and> analyze L df = Inr a \<and> plot_daily df = Inr line
          \<and> line_png (snd (main L flt in_dir out_dir w)) = Some line
          \<and> report_file (snd (main L flt in_dir out_dir w)) = Some (report_html L out_dir a)"
    by auto
next
  fix dj t
  assume dj: "daily_file w = Some dj"
    and ok': "fst (main L flt in_dir out_dir (w\<lparr>type_file := t\<rparr>)) = None"
  from main_success [OF ok] dj obtain df a line where
    r: "ebind dj (df_daily_total L) = Inr df" "analyze L df = Inr a" "plot_daily df = Inr line"
       "line_png (snd (main L flt in_dir out_dir w)) = Some line"
       "report_file (snd (main L flt in_dir out_dir w)) = Some (report_html L out_dir a)"
    by auto
  from dj have dj': "daily_file (w\<lparr>type_file := t\<rparr>) = Some dj" by simp
  from main_success [OF ok'] dj' obtain df' a' line' where
    r': "ebind dj (df_daily_total L) = Inr df'" "analyze L df' = Inr a'" "plot_daily df' = Inr line'"
       "line_png (snd (main L flt in_dir out_dir (w\<lparr>type_file := t\<rparr>))) = Some line'"
       "report_file (snd (main L flt in_dir out_dir (w\<lparr>type_file := t\<rparr>))) = Some (report_html L out_dir a')"
    by auto
  from r(1) r'(1) have "df' = df" by simp
  with r r' have "a' = a" "line' = line" by simp_all
  with r r' show "line_png (snd (main L flt in_dir out_dir (w\<lparr>type_file := t\<rparr>)))
      = line_png (snd (main L flt in_dir out_dir w))" by simp
  from \<open>a' = a\<close> r r' show "report_file (snd (main L flt in_dir out_dir (w\<lparr>type_file := t\<rparr>)))
      = report_file (snd (main L flt in_dir out_dir w))" by simp
qed

theorem main_uses_total_series_witness:
  "fst (main sample_lib NoFault ''.'' ''output'' sample_world) = None
   \<and> daily_file sample_world = Some (Inr (JArr [total_json ''2024-01-01'' ''2.5'']))
   \<and> line_png (snd (main sample_lib NoFault ''.'' ''output'' sample_world)) = Some [(1, 5 / 2)]"
proof -
  have h1: "fst (main sample_lib NoFault ''.'' ''output'' sample_world) = None"
    by (rule sample_run_ok)
  have h2: "daily_file sample_world = Some (Inr (JArr [total_json ''2024-01-01'' ''2.5'']))"
    by (simp add: sample_world_def)
  from main_uses_total_series [OF h1] h2 obtain df line where
    r: "ebind (Inr (JArr [total_json ''2024-01-01'' ''2.5''])) (df_daily_total sample_lib) = Inr df"
       "plot_daily df = Inr line"
       "line_png (snd (main sample_lib NoFault ''.'' ''output'' sample_world)) = Some line"
    by blast
  from r(1) have "df = \<lparr>columns = [''Date'', ''Cost''], rows = [(0, \<lparr>Date = 1, Cost = 5 / 2\<rparr>)]\<rparr>"
    by (simp add: sample_total_frame)
  with r(2) have "line = [(1, 5 / 2)]" by (simp add: plot_daily_def)
  with r(3) h1 h2 show ?thesis by simp
qed

text \<open>
  C9, as the code has it. \<open>write_html\<close> builds the whole document first, then opens the
  report file, which creates or empties it, and writes the document with one call. With
  no fault the file holds the whole document; when the open fails the file is as it was;
  when the write fails the file is left with the part of the document that was written.
  A run of \<open>main\<close> that fails before \<open>write_html\<close> leaves the report file as it was.
  The write is not atomic: in the counterexample the write fails after 15 bytes and the
  file holds the first line of the document only.
\<close>

theorem write_html_outcomes:
  "write_html L flt a line_plot bar_plot report_path file =
     (case flt of
        NoFault \<Rightarrow>
          (None, Some (render_html L a (relpath L line_plot (dirname L report_path))
                                      (relpath L bar_plot (dirname L report_path))))
      | OpenFails \<Rightarrow> (Some OSError, file)
      | WriteFails n \<Rightarrow>
          (Some OSError, Some (take n (render_html L a (relpath L line_plot (dirname L report_path))
                                                       (relpath L bar_plot (dirname L report_path))))))
   \<and> (fst (main L NoFault in_dir out_dir w) = None
        \<or> report_file (snd (main L NoFault in_dir out_dir w)) = report_file w)"
  using write_html_cases main_failure_keeps_report by blast

theorem write_html_not_atomic_counterexample:
  "write_html sample_lib (WriteFails 15) zero_summary ''output/images/cost_over_time.png''
       ''output/images/cost_per_instance_type.png'' ''output/ec2_cost_report.html'' None
     = (Some OSError, Some ''<!doctype html>'')
   \<and> render_html sample_lib zero_summary ''output/images/cost_over_time.png''
        ''output/images/cost_per_instance_type.png'' \<noteq> ''<!doctype html>''"
  by (simp add: write_html_cases render_html_def nl_def)

end
